theory Spec2Isabelle
  imports Main "HOL-Library.Word" "HOL-Library.Char_ord" "HOL-Library.List_Lexorder"
begin

section \<open>Values shared by the worker's modules\<close>

text \<open>
  The worker is TypeScript running on a JavaScript platform. Strings are modelled as
  \<^typ>\<open>string\<close>, byte arrays (\<^verbatim>\<open>Uint8Array\<close>) as lists of 8-bit words, and
  \<^verbatim>\<open>T | null\<close> / \<^verbatim>\<open>T | undefined\<close> as \<^typ>\<open>'a option\<close>. Logging
  (\<^verbatim>\<open>logWithContext\<close>) has no effect on any result and is left out.
\<close>

type_synonym byte = "8 word"
type_synonym bytes = "byte list"

text \<open>
  A value that reaches a \<^verbatim>\<open>catch\<close> clause: an \<^verbatim>\<open>Error\<close> object with its message,
  or any other thrown value, kept as the text \<^verbatim>\<open>String(error)\<close> gives.
\<close>

datatype thrown = ErrorObj string | NonError string

text \<open>\<^verbatim>\<open>error instanceof Error ? error.message : String(error)\<close>\<close>

definition errorMessage :: "thrown \<Rightarrow> string" where
  "errorMessage e = (case e of ErrorObj m \<Rightarrow> m | NonError s \<Rightarrow> s)"

text \<open>
  \<^verbatim>\<open>x || null\<close> and \<^verbatim>\<open>x || undefined\<close> on an optional string: the empty string is
  falsy, so it is dropped like an absent value.
\<close>

definition orNull :: "string option \<Rightarrow> string option" where
  "orNull x = (case x of None \<Rightarrow> None | Some s \<Rightarrow> if s = [] then None else Some s)"

section \<open>Platform primitives\<close>

text \<open>
  The code calls the platform for text encoding, HMAC-SHA256, AES-GCM, base64, date
  parsing, RS256 signing and JSON parsing. None of these is code of the worker; they
  are the fields of a record that every function below takes as its first argument.
  A primitive that can throw returns \<^typ>\<open>thrown + 'a\<close>.

  \<^item> \<open>textEncode\<close>, \<open>textDecode\<close>: \<^verbatim>\<open>new TextEncoder().encode\<close> and
    \<^verbatim>\<open>new TextDecoder().decode\<close> (which replaces bad input and does not throw).
    The text of a \<^typ>\<open>string\<close> is whatever the two agree on.
  \<^item> \<open>hmacSha256 key message\<close>: \<^verbatim>\<open>crypto.subtle.sign('HMAC', key, message)\<close> for
    a key imported raw with hash SHA-256.
  \<^item> \<open>aesGcmEncrypt key iv data\<close>, \<open>aesGcmDecrypt key iv data\<close>:
    \<^verbatim>\<open>crypto.subtle.encrypt\<close> / \<^verbatim>\<open>decrypt\<close> with \<^verbatim>\<open>{name: 'AES-GCM', iv}\<close> for
    a key imported raw; decryption throws on a failed tag check.
  \<^item> \<open>btoa\<close>, \<open>atob\<close>: base64 of a binary string (one character per byte) and
    back; \<^verbatim>\<open>atob\<close> throws on text that is not base64.
  \<^item> \<open>spreadLimit\<close>: the greatest number of arguments the engine takes in a call
    written with spread, \<^verbatim>\<open>f(...array)\<close>; a longer array makes the call throw a
    \<^verbatim>\<open>RangeError\<close>.
  \<^item> \<open>numberToString\<close>: \<^verbatim>\<open>Number.prototype.toString\<close>, decimal digits for the
    integers below ten to the power 21 and exponent form from there on.
  \<^item> \<open>dateParse\<close>: \<^verbatim>\<open>new Date(text).getTime()\<close> in milliseconds, \<open>None\<close> for
    \<^verbatim>\<open>NaN\<close>.
  \<^item> \<open>jwtSign\<close>: \<^verbatim>\<open>jwt.sign(payload, privateKey, {algorithm: 'RS256'})\<close>.
  \<^item> \<open>jsonParse\<close>: \<^verbatim>\<open>JSON.parse\<close>, \<open>None\<close> when it throws. Numbers are
    integers here, and an object is the list of its keys with their values, one entry
    per key.
\<close>

datatype json =
  JNull | JBool bool | JNum int | JStr string | JArr "json list" | JObj "(string \<times> json) list"

record jwt_payload =
  iss :: string
  iat :: int
  exp :: int

record platform =
  textEncode :: "string \<Rightarrow> bytes"
  textDecode :: "bytes \<Rightarrow> string"
  hmacSha256 :: "bytes \<Rightarrow> bytes \<Rightarrow> bytes"
  aesGcmEncrypt :: "bytes \<Rightarrow> bytes \<Rightarrow> bytes \<Rightarrow> bytes"
  aesGcmDecrypt :: "bytes \<Rightarrow> bytes \<Rightarrow> bytes \<Rightarrow> thrown + bytes"
  btoa :: "string \<Rightarrow> string"
  atob :: "string \<Rightarrow> thrown + string"
  spreadLimit :: nat
  numberToString :: "int \<Rightarrow> string"
  dateParse :: "string \<Rightarrow> int option"
  jwtSign :: "jwt_payload \<Rightarrow> string \<Rightarrow> thrown + string"
  jsonParse :: "string \<Rightarrow> json option"

text \<open>Sequencing of calls that may throw, and \<^verbatim>\<open>try { ... } catch (error) { ... }\<close>.\<close>

definition andThen :: "thrown + 'a \<Rightarrow> ('a \<Rightarrow> thrown + 'b) \<Rightarrow> thrown + 'b" where
  "andThen r f = (case r of Inl e \<Rightarrow> Inl e | Inr v \<Rightarrow> f v)"

definition tryCatch :: "thrown + 'a \<Rightarrow> (thrown \<Rightarrow> thrown + 'a) \<Rightarrow> thrown + 'a" where
  "tryCatch body handler = (case body of Inl e \<Rightarrow> handler e | Inr v \<Rightarrow> Inr v)"

section \<open>Encryption utilities and GitHub tokens (crypto.ts: src/src/index.ts from line 820)\<close>

definition staticKeyMaterial :: string where
  "staticKeyMaterial = ''github-app-encryption-key-32char''"

text \<open>
  The key both functions use: the raw material of the optional \<^verbatim>\<open>CryptoKey\<close>
  argument, or the encoded static text when none is passed.
\<close>

definition keyMaterial :: "platform \<Rightarrow> bytes option \<Rightarrow> bytes" where
  "keyMaterial P key = (case key of None \<Rightarrow> textEncode P staticKeyMaterial | Some k \<Rightarrow> k)"

text \<open>
  \<^verbatim>\<open>String.fromCharCode(...bytes)\<close> when the call is made: the binary string with one
  character per byte; and \<^verbatim>\<open>text.split('').map(char => char.charCodeAt(0))\<close> on a
  binary string.
\<close>

definition fromCharCodes :: "bytes \<Rightarrow> string" where
  "fromCharCodes bs = map (\<lambda>b. char_of (unat b)) bs"

definition charCodes :: "string \<Rightarrow> bytes" where
  "charCodes s = map (\<lambda>c. of_nat (of_char c)) s"

text \<open>
  The error of a call with more spread arguments than the engine takes. Its message
  is the engine's; the model writes the error's name.
\<close>

definition rangeError :: thrown where
  "rangeError = ErrorObj ''RangeError''"

text \<open>
  \<^verbatim>\<open>encrypt(text, key?)\<close>. The argument \<open>iv\<close> is the value of
  \<^verbatim>\<open>crypto.getRandomValues(new Uint8Array(12))\<close>, twelve bytes chosen by the platform.
  The last line, \<^verbatim>\<open>btoa(String.fromCharCode(...combined))\<close>, passes every byte of the
  IV and the ciphertext as one argument each, so it throws when there are more of
  them than the engine takes; otherwise the result is base64 of the IV followed by
  the ciphertext.
\<close>

definition encrypt :: "platform \<Rightarrow> bytes \<Rightarrow> string \<Rightarrow> bytes option \<Rightarrow> thrown + string" where
  "encrypt P iv text key =
     (let k = keyMaterial P key;
          encodedText = textEncode P text;
          encrypted = aesGcmEncrypt P k iv encodedText;
          combined = iv @ encrypted
      in if spreadLimit P < length combined then Inl rangeError
         else Inr (btoa P (fromCharCodes combined)))"

text \<open>
  \<^verbatim>\<open>decrypt(encryptedText, key?)\<close>: \<^verbatim>\<open>combined.slice(0, 12)\<close> is the IV,
  \<^verbatim>\<open>combined.slice(12)\<close> the ciphertext. \<^verbatim>\<open>atob\<close> and the AES-GCM decryption can
  throw; nothing here catches.
\<close>

definition decrypt :: "platform \<Rightarrow> string \<Rightarrow> bytes option \<Rightarrow> thrown + string" where
  "decrypt P encryptedText key =
     (let k = keyMaterial P key
      in andThen (atob P encryptedText) (\<lambda>binary.
           let combined = charCodes binary;
               iv = take 12 combined;
               encrypted = drop 12 combined
           in andThen (aesGcmDecrypt P k iv encrypted) (\<lambda>decrypted.
                Inr (textDecode P decrypted))))"

text \<open>
  What the code relies on from the platform for a round trip: AES-GCM decryption
  undoes encryption under the same key and IV, and \<^verbatim>\<open>atob\<close> undoes \<^verbatim>\<open>btoa\<close>.
\<close>

definition aesGcmInverse :: "platform \<Rightarrow> bool" where
  "aesGcmInverse P =
     (\<forall>k iv d. aesGcmDecrypt P k iv (aesGcmEncrypt P k iv d) = Inr d)"

definition base64Inverse :: "platform \<Rightarrow> bool" where
  "base64Inverse P = (\<forall>binary. atob P (btoa P binary) = Inr binary)"

subsection \<open>Installation tokens from the GitHub API\<close>

record http_request =
  req_url :: string
  req_method :: string
  req_headers :: "(string \<times> string) list"

record token_data =
  td_token :: string
  td_expires_at :: string

text \<open>
  The response of \<^verbatim>\<open>fetch\<close> as the code reads it: \<^verbatim>\<open>response.ok\<close>,
  \<^verbatim>\<open>response.status\<close> and the result of \<^verbatim>\<open>await response.json()\<close>, which throws on
  a body that is not JSON. The network is a function from the request to what
  \<^verbatim>\<open>fetch\<close> does with it: it throws on a transport failure.
\<close>

record api_response =
  resp_ok :: bool
  resp_status :: nat
  resp_json :: "thrown + token_data"

type_synonym network = "http_request \<Rightarrow> thrown + api_response"

text \<open>\<^verbatim>\<open>generateAppJWT\<close>: \<open>nowSec\<close> is \<^verbatim>\<open>Math.floor(Date.now() / 1000)\<close>.\<close>

definition generateAppJWT :: "platform \<Rightarrow> int \<Rightarrow> string \<Rightarrow> string \<Rightarrow> thrown + string" where
  "generateAppJWT P nowSec app_id private_key =
     jwtSign P \<lparr>iss = app_id, iat = nowSec - 60, exp = nowSec + 600\<rparr> private_key"

definition accessTokenRequest :: "string \<Rightarrow> string \<Rightarrow> http_request" where
  "accessTokenRequest installation_id appJWT =
     \<lparr>req_url = ''https://api.github.com/app/installations/'' @ installation_id @ ''/access_tokens'',
      req_method = ''POST'',
      req_headers = [(''Authorization'', ''Bearer '' @ appJWT),
                     (''Accept'', ''application/vnd.github.v3+json''),
                     (''User-Agent'', ''Worker-GitHub-Integration'')]\<rparr>"

text \<open>
  \<^verbatim>\<open>generateInstallationToken\<close>: the result and the list of requests sent. The whole
  body is inside \<^verbatim>\<open>try\<close>; every throw, of the signing, of \<^verbatim>\<open>fetch\<close> or of
  \<^verbatim>\<open>response.json()\<close>, ends in \<^verbatim>\<open>return null\<close>.
\<close>

definition generateInstallationToken ::
  "platform \<Rightarrow> network \<Rightarrow> int \<Rightarrow> string \<Rightarrow> string \<Rightarrow> string
     \<Rightarrow> token_data option \<times> http_request list" where
  "generateInstallationToken P net nowSec app_id private_key installation_id =
     (case generateAppJWT P nowSec app_id private_key of
        Inl error \<Rightarrow> (None, [])
      | Inr appJWT \<Rightarrow>
          (let request = accessTokenRequest installation_id appJWT
           in case net request of
                Inl error \<Rightarrow> (None, [request])
              | Inr response \<Rightarrow>
                  if \<not> resp_ok response then (None, [request])
                  else (case resp_json response of
                          Inl error \<Rightarrow> (None, [request])
                        | Inr tokenData \<Rightarrow> (Some tokenData, [request]))))"

section \<open>The per-tenant durable object \<^verbatim>\<open>GitHubAppConfigDO\<close> (index.ts: src/src/index.ts)\<close>

subsection \<open>Stored data\<close>

record repository =
  repo_id :: int
  repo_name :: string
  repo_full_name :: string
  repo_private :: bool

record owner_info =
  owner_login :: string
  owner_type :: string
  owner_id :: int

record gitHubAppConfig =
  appId :: string
  privateKey :: string
  webhookSecret :: string
  installationId :: "string option"
  owner :: owner_info
  permissions :: "(string \<times> string) list"
  events :: "string list"
  repositories :: "repository list"
  createdAt :: string
  lastWebhookAt :: "string option"
  webhookCount :: int

text \<open>A row of table \<^verbatim>\<open>installation_tokens\<close>; the columns are TEXT.\<close>

record token_row =
  token :: string
  expires_at :: string
  created_at :: string

record claude_row =
  anthropic_api_key :: string
  claude_setup_at :: string
  claude_created_at :: string
  claude_updated_at :: string

text \<open>
  The SQLite storage of one durable object. Table \<^verbatim>\<open>github_app_config\<close> is only ever
  written with \<^verbatim>\<open>INSERT OR REPLACE ... VALUES (1, ...)\<close> and read with
  \<^verbatim>\<open>WHERE id = 1\<close>, so it is the optional row 1: the configuration columns and
  \<^verbatim>\<open>updated_at\<close>. The columns \<^verbatim>\<open>permissions\<close>, \<^verbatim>\<open>events\<close> and
  \<^verbatim>\<open>repositories\<close> hold \<^verbatim>\<open>JSON.stringify\<close> of the value and are read back with
  \<^verbatim>\<open>JSON.parse\<close>; the model keeps the value. Table \<^verbatim>\<open>installation_tokens\<close> is the
  list of its rows in rowid (insertion) order.
\<close>

record storage =
  github_app_config :: "(gitHubAppConfig \<times> string) option"
  installation_tokens :: "token_row list"
  claude_config :: "claude_row option"

text \<open>\<^verbatim>\<open>initializeTables\<close> on a fresh object: three empty tables.\<close>

definition initializeTables :: storage where
  "initializeTables =
     \<lparr>github_app_config = None, installation_tokens = [], claude_config = None\<rparr>"

subsection \<open>Configuration row\<close>

text \<open>
  \<^verbatim>\<open>storeAppConfigSQLite\<close>: the argument \<open>now\<close> is \<^verbatim>\<open>new Date().toISOString()\<close>.
  \<^verbatim>\<open>installationId || null\<close> and \<^verbatim>\<open>lastWebhookAt || null\<close> are written.
\<close>

definition storeAppConfig :: "string \<Rightarrow> gitHubAppConfig \<Rightarrow> storage \<Rightarrow> storage" where
  "storeAppConfig now config st =
     st\<lparr>github_app_config :=
          Some (config\<lparr>installationId := orNull (installationId config),
                       lastWebhookAt := orNull (lastWebhookAt config)\<rparr>, now)\<rparr>"

text \<open>
  \<^verbatim>\<open>getAppConfig\<close>: \<^verbatim>\<open>null\<close> when the table is empty, else the row as a
  configuration, with \<^verbatim>\<open>installation_id || undefined\<close> and
  \<^verbatim>\<open>last_webhook_at || undefined\<close>.
\<close>

definition getAppConfig :: "storage \<Rightarrow> gitHubAppConfig option" where
  "getAppConfig st =
     (case github_app_config st of
        None \<Rightarrow> None
      | Some (row, updated_at) \<Rightarrow>
          Some (row\<lparr>installationId := orNull (installationId row),
                    lastWebhookAt := orNull (lastWebhookAt row)\<rparr>))"

definition updateInstallation ::
  "string \<Rightarrow> string \<Rightarrow> repository list \<Rightarrow> storage \<Rightarrow> storage" where
  "updateInstallation now instId repos st =
     (case getAppConfig st of
        None \<Rightarrow> st
      | Some config \<Rightarrow>
          storeAppConfig now (config\<lparr>installationId := Some instId, repositories := repos\<rparr>) st)"

text \<open>
  \<^verbatim>\<open>logWebhook\<close>: \<open>stamp\<close> is the \<^verbatim>\<open>toISOString()\<close> written to
  \<^verbatim>\<open>lastWebhookAt\<close>, \<open>now\<close> the one \<^verbatim>\<open>storeAppConfigSQLite\<close> reads afterwards.
\<close>

definition logWebhook :: "string \<Rightarrow> string \<Rightarrow> storage \<Rightarrow> storage" where
  "logWebhook stamp now st =
     (case getAppConfig st of
        None \<Rightarrow> st
      | Some config \<Rightarrow>
          storeAppConfig now
            (config\<lparr>lastWebhookAt := Some stamp, webhookCount := webhookCount config + 1\<rparr>) st)"

subsection \<open>Repository list\<close>

text \<open>
  \<^verbatim>\<open>addRepository\<close>: \<^verbatim>\<open>repositories.some(r => r.id === repo.id)\<close> guards the
  \<^verbatim>\<open>push\<close> and the store; nothing is written when the id is already there or when
  there is no configuration.
\<close>

definition addRepository :: "string \<Rightarrow> repository \<Rightarrow> storage \<Rightarrow> storage" where
  "addRepository now repo st =
     (case getAppConfig st of
        None \<Rightarrow> st
      | Some config \<Rightarrow>
          (let exists = list_ex (\<lambda>r. repo_id r = repo_id repo) (repositories config)
           in if \<not> exists
              then storeAppConfig now (config\<lparr>repositories := repositories config @ [repo]\<rparr>) st
              else st))"

text \<open>
  \<^verbatim>\<open>removeRepository\<close>: \<^verbatim>\<open>repositories.filter(r => r.id !== repoId)\<close>, then the
  configuration is stored whether or not an entry was dropped.
\<close>

definition removeRepository :: "string \<Rightarrow> int \<Rightarrow> storage \<Rightarrow> storage" where
  "removeRepository now repoId st =
     (case getAppConfig st of
        None \<Rightarrow> st
      | Some config \<Rightarrow>
          storeAppConfig now
            (config\<lparr>repositories := filter (\<lambda>r. repo_id r \<noteq> repoId) (repositories config)\<rparr>) st)"

text \<open>\<^verbatim>\<open>getAllRepositories\<close>: \<^verbatim>\<open>config?.repositories || []\<close>.\<close>

definition getAllRepositories :: "storage \<Rightarrow> repository list" where
  "getAllRepositories st =
     (case getAppConfig st of None \<Rightarrow> [] | Some config \<Rightarrow> repositories config)"

text \<open>The entries of the stored list that carry a given repository id.\<close>

definition entriesWithId :: "int \<Rightarrow> storage \<Rightarrow> repository list" where
  "entriesWithId rid st = filter (\<lambda>r. repo_id r = rid) (getAllRepositories st)"

subsection \<open>Decrypted credentials\<close>

record credentials =
  cred_privateKey :: string
  cred_webhookSecret :: string

text \<open>
  \<^verbatim>\<open>getDecryptedCredentials\<close>. The result type keeps a throw that would leave the
  method visible as \<open>Inl\<close>; the two \<^verbatim>\<open>decrypt\<close> calls are inside \<^verbatim>\<open>try\<close> and
  the \<^verbatim>\<open>catch\<close> returns \<^verbatim>\<open>null\<close>.
\<close>

definition getDecryptedCredentials :: "platform \<Rightarrow> storage \<Rightarrow> thrown + credentials option" where
  "getDecryptedCredentials P st =
     (case getAppConfig st of
        None \<Rightarrow> Inr None
      | Some config \<Rightarrow>
          tryCatch
            (andThen (decrypt P (privateKey config) None) (\<lambda>private_key.
             andThen (decrypt P (webhookSecret config) None) (\<lambda>webhook_secret.
               Inr (Some \<lparr>cred_privateKey = private_key, cred_webhookSecret = webhook_secret\<rparr>))))
            (\<lambda>error. Inr None))"

subsection \<open>Installation token cache\<close>

text \<open>
  \<^verbatim>\<open>SELECT * FROM installation_tokens ORDER BY created_at DESC LIMIT 1\<close>: a row whose
  \<^verbatim>\<open>created_at\<close> text is greatest in SQLite's binary order, which on strings is the
  lexicographic order of \<^typ>\<open>string\<close>. SQL leaves the choice among rows with equal
  \<^verbatim>\<open>created_at\<close> open; the model takes the one inserted first.
\<close>

fun latestRow :: "token_row list \<Rightarrow> token_row option" where
  "latestRow [] = None"
| "latestRow (r # rs) =
     (case latestRow rs of
        None \<Rightarrow> Some r
      | Some b \<Rightarrow> if created_at r < created_at b then Some b else Some r)"

definition getCachedInstallationToken :: "storage \<Rightarrow> token_row option" where
  "getCachedInstallationToken st = latestRow (installation_tokens st)"

text \<open>
  \<^verbatim>\<open>storeInstallationTokenSQLite\<close>: \<open>now\<close> is \<^verbatim>\<open>new Date().toISOString()\<close>.
  \<^verbatim>\<open>DELETE FROM installation_tokens WHERE expires_at < ?\<close> compares TEXT with TEXT;
  the \<^verbatim>\<open>INSERT\<close> appends a row.
\<close>

definition storeInstallationTokenSQLite :: "string \<Rightarrow> string \<Rightarrow> string \<Rightarrow> storage \<Rightarrow> storage" where
  "storeInstallationTokenSQLite now tok expiresAt st =
     st\<lparr>installation_tokens :=
          filter (\<lambda>r. \<not> expires_at r < now) (installation_tokens st)
          @ [\<lparr>token = tok, expires_at = expiresAt, created_at = now\<rparr>]\<rparr>"

text \<open>
  The clock readings of one call of \<^verbatim>\<open>getInstallationToken\<close>: \<^verbatim>\<open>new Date()\<close> at the
  cache check in milliseconds, \<^verbatim>\<open>Date.now()\<close> in seconds when the JWT is built,
  and \<^verbatim>\<open>new Date().toISOString()\<close> when the new token is stored.
\<close>

record clock_reads =
  checkNowMs :: int
  jwtNowSec :: int
  storeNowIso :: string

text \<open>
  \<^verbatim>\<open>timeUntilExpiry > 5 * 60 * 1000\<close> for \<^verbatim>\<open>new Date(expires_at).getTime() - now\<close>;
  a comparison with \<^verbatim>\<open>NaN\<close> is false.
\<close>

definition expiresInMoreThan5Min :: "platform \<Rightarrow> string \<Rightarrow> int \<Rightarrow> bool" where
  "expiresInMoreThan5Min P expiresAt now =
     (case dateParse P expiresAt of
        None \<Rightarrow> False
      | Some expiresAtMs \<Rightarrow> expiresAtMs - now > 5 * 60 * 1000)"

text \<open>
  The part of \<^verbatim>\<open>getInstallationToken\<close> under the comment \<^verbatim>\<open>Generate new token\<close>:
  the result, the storage afterwards and the requests sent.
\<close>

definition generateNewToken ::
  "platform \<Rightarrow> network \<Rightarrow> clock_reads \<Rightarrow> gitHubAppConfig \<Rightarrow> string \<Rightarrow> storage
     \<Rightarrow> string option \<times> storage \<times> http_request list" where
  "generateNewToken P net clk config installation_id st =
     (case getDecryptedCredentials P st of
        Inl error \<Rightarrow> (None, st, [])
      | Inr None \<Rightarrow> (None, st, [])
      | Inr (Some creds) \<Rightarrow>
          (case generateInstallationToken P net (jwtNowSec clk) (appId config)
                  (cred_privateKey creds) installation_id of
             (Some tokenData, sent) \<Rightarrow>
               (Some (td_token tokenData),
                storeInstallationTokenSQLite (storeNowIso clk) (td_token tokenData)
                  (td_expires_at tokenData) st,
                sent)
           | (None, sent) \<Rightarrow> (None, st, sent)))"

text \<open>
  \<^verbatim>\<open>getInstallationToken\<close>. The first guard is
  \<^verbatim>\<open>!config || !config.installationId\<close>; an empty installation id is falsy.
\<close>

definition getInstallationToken ::
  "platform \<Rightarrow> network \<Rightarrow> clock_reads \<Rightarrow> storage
     \<Rightarrow> string option \<times> storage \<times> http_request list" where
  "getInstallationToken P net clk st =
     (case getAppConfig st of
        None \<Rightarrow> (None, st, [])
      | Some config \<Rightarrow>
          (case orNull (installationId config) of
             None \<Rightarrow> (None, st, [])
           | Some installation_id \<Rightarrow>
               (case getCachedInstallationToken st of
                  Some cachedToken \<Rightarrow>
                    if expiresInMoreThan5Min P (expires_at cachedToken) (checkNowMs clk)
                    then (Some (token cachedToken), st, [])
                    else generateNewToken P net clk config installation_id st
                | None \<Rightarrow> generateNewToken P net clk config installation_id st)))"

section \<open>Webhook handler (handlers/github_webhook.ts: src/unnamed/part_000)\<close>

subsection \<open>Strings and numbers of the language\<close>

text \<open>\<^verbatim>\<open>s.startsWith(p)\<close>\<close>

definition startsWith :: "string \<Rightarrow> string \<Rightarrow> bool" where
  "startsWith s p = (take (length p) s = p)"

text \<open>
  \<^verbatim>\<open>s.replace(pattern, replacement)\<close> with a string pattern: the first occurrence
  only. The replacement used below is the empty string, which has no special patterns.
\<close>

fun replaceFirst :: "string \<Rightarrow> string \<Rightarrow> string \<Rightarrow> string" where
  "replaceFirst pat rep [] = (if pat = [] then rep else [])"
| "replaceFirst pat rep (c # cs) =
     (if startsWith (c # cs) pat then rep @ drop (length pat) (c # cs)
      else c # replaceFirst pat rep cs)"

definition hexDigit :: "nat \<Rightarrow> char" where
  "hexDigit d = ''0123456789abcdef'' ! d"

text \<open>\<^verbatim>\<open>byte.toString(16)\<close> for a byte: one digit below 16, two digits from 16 on.\<close>

definition toString16 :: "byte \<Rightarrow> string" where
  "toString16 b =
     (let n = unat b
      in if n < 16 then [hexDigit n] else [hexDigit (n div 16), hexDigit (n mod 16)])"

text \<open>\<^verbatim>\<open>s.padStart(n, c)\<close> for a one-character pad string.\<close>

definition padStart :: "nat \<Rightarrow> char \<Rightarrow> string \<Rightarrow> string" where
  "padStart n c s = replicate (n - length s) c @ s"

definition digitChar :: "nat \<Rightarrow> char" where
  "digitChar d = ''0123456789'' ! d"

text \<open>The decimal text of a non-negative integer, as a template literal prints it.\<close>

fun showNat :: "nat \<Rightarrow> string" where
  "showNat n = (if n < 10 then [digitChar n] else showNat (n div 10) @ [digitChar (n mod 10)])"

declare showNat.simps [simp del]

subsection \<open>Signature verification\<close>

text \<open>
  \<^verbatim>\<open>Array.from(hashArray).map(byte => byte.toString(16).padStart(2, '0')).join('')\<close>
\<close>

definition toHex :: "bytes \<Rightarrow> string" where
  "toHex hashArray = concat (map (\<lambda>byte. padStart 2 CHR ''0'' (toString16 byte)) hashArray)"

text \<open>
  \<^verbatim>\<open>crypto.subtle.importKey('raw', keyData, {name: 'HMAC', hash: 'SHA-256'}, false,
  ['sign'])\<close>: the Web Cryptography rule for HMAC keys rejects key data of length zero
  with a \<^verbatim>\<open>DataError\<close> and takes any other key data. The error's message is the
  platform's; the model writes the error's name.
\<close>

definition dataError :: thrown where
  "dataError = ErrorObj ''DataError''"

definition importHmacKey :: "bytes \<Rightarrow> thrown + bytes" where
  "importHmacKey keyData = (if keyData = [] then Inl dataError else Inr keyData)"

text \<open>
  \<^verbatim>\<open>verifyGitHubSignature(payload, signature, secret)\<close>. The handler passes the value
  of \<^verbatim>\<open>headers.get\<close>, so the signature is optional here; \<^verbatim>\<open>!signature\<close> holds for
  \<^verbatim>\<open>null\<close> and for the empty string. The key import comes after the check of the
  prefix and can throw; nothing here catches. The last line of the source is
  \<^verbatim>\<open>return sigHex === computedHex\<close>, the built-in equality of strings.
\<close>

definition verifyGitHubSignature ::
  "platform \<Rightarrow> string \<Rightarrow> string option \<Rightarrow> string \<Rightarrow> thrown + bool" where
  "verifyGitHubSignature P payload signature secret =
     (case signature of
        None \<Rightarrow> Inr False
      | Some sig \<Rightarrow>
          if sig = [] \<or> \<not> startsWith sig ''sha256='' then Inr False
          else (let sigHex = replaceFirst ''sha256='' [] sig
                in andThen (importHmacKey (textEncode P secret)) (\<lambda>key.
                     let messageBuffer = textEncode P payload;
                         hashArray = hmacSha256 P key messageBuffer;
                         computedHex = toHex hashArray
                     in Inr (sigHex = computedHex))))"

text \<open>
  The header GitHub sends for a payload and a secret: \<^verbatim>\<open>sha256=\<close> and two
  lower-case hexadecimal digits per byte of the HMAC, high digit first.
\<close>

definition lowerHex :: "bytes \<Rightarrow> string" where
  "lowerHex bs = concat (map (\<lambda>b. [hexDigit (unat b div 16), hexDigit (unat b mod 16)]) bs)"

definition signatureHeaderFor :: "platform \<Rightarrow> string \<Rightarrow> string \<Rightarrow> string" where
  "signatureHeaderFor P payload secret =
     ''sha256='' @ lowerHex (hmacSha256 P (textEncode P secret) (textEncode P payload))"

text \<open>
  HMAC as RFC 2104 and FIPS 198-1 define it over a hash function \<open>H\<close> with 64-byte
  blocks, which is what the platform computes for \<^verbatim>\<open>{name: 'HMAC', hash: 'SHA-256'}\<close>
  with \<open>H\<close> SHA-256: a key longer than a block is hashed, the key is filled with zero
  bytes to the block length, and the hash is applied twice with the two pads.
\<close>

definition hmacOver :: "(bytes \<Rightarrow> bytes) \<Rightarrow> bytes \<Rightarrow> bytes \<Rightarrow> bytes" where
  "hmacOver H key message =
     (let k = (if 64 < length key then H key else key);
          k0 = k @ replicate (64 - length k) 0
      in H (map (\<lambda>b. xor b 0x5c) k0 @ H (map (\<lambda>b. xor b 0x36) k0 @ message)))"

subsection \<open>Values read from the parsed payload\<close>

text \<open>
  \<^verbatim>\<open>value.name\<close> on a value that is not \<^verbatim>\<open>null\<close>: the entry of an object;
  \<^verbatim>\<open>undefined\<close> on a number, string, boolean or array for the names read here.
\<close>

definition getProp :: "json \<Rightarrow> string \<Rightarrow> json option" where
  "getProp v name = (case v of JObj entries \<Rightarrow> map_of entries name | _ \<Rightarrow> None)"

text \<open>\<^verbatim>\<open>value?.name\<close> on a value that may be \<^verbatim>\<open>undefined\<close> or \<^verbatim>\<open>null\<close>.\<close>

definition optChain :: "json option \<Rightarrow> string \<Rightarrow> json option" where
  "optChain v name =
     (case v of None \<Rightarrow> None | Some JNull \<Rightarrow> None | Some x \<Rightarrow> getProp x name)"

fun truthy :: "json option \<Rightarrow> bool" where
  "truthy None = False"
| "truthy (Some JNull) = False"
| "truthy (Some (JBool b)) = b"
| "truthy (Some (JNum n)) = (n \<noteq> 0)"
| "truthy (Some (JStr s)) = (s \<noteq> [])"
| "truthy (Some (JArr xs)) = True"
| "truthy (Some (JObj entries)) = True"

text \<open>
  \<^verbatim>\<open>value.toString()\<close> on a parsed value. An array joins the texts of its elements
  with commas, \<^verbatim>\<open>null\<close> elements as empty text. An object parsed from JSON has no
  function among its values, so one with a key \<^verbatim>\<open>toString\<close> has no callable
  \<^verbatim>\<open>toString\<close> and the call throws a \<^verbatim>\<open>TypeError\<close>; any other object gives
  \<^verbatim>\<open>[object Object]\<close>.
\<close>

definition typeError :: thrown where
  "typeError = ErrorObj ''TypeError''"

fun jsToString :: "platform \<Rightarrow> json \<Rightarrow> thrown + string"
  and joinElements :: "platform \<Rightarrow> json list \<Rightarrow> thrown + string" where
  "jsToString P JNull = Inr ''null''"
| "jsToString P (JBool b) = Inr (if b then ''true'' else ''false'')"
| "jsToString P (JNum n) = Inr (numberToString P n)"
| "jsToString P (JStr s) = Inr s"
| "jsToString P (JArr xs) = joinElements P xs"
| "jsToString P (JObj entries) =
     (if map_of entries ''toString'' = None then Inr ''[object Object]'' else Inl typeError)"
| "joinElements P [] = Inr []"
| "joinElements P (x # xs) =
     (case (if x = JNull then Inr [] else jsToString P x) of
        Inl error \<Rightarrow> Inl error
      | Inr first \<Rightarrow>
          if xs = [] then Inr first
          else (case joinElements P xs of
                  Inl error \<Rightarrow> Inl error
                | Inr others \<Rightarrow> Inr (first @ '','' @ others)))"

subsection \<open>Requests, responses and what the handler does on the way\<close>

record webhook_request =
  body_text :: string
  get_header :: "string \<Rightarrow> string option"

datatype body = TextBody string | JsonBody json

record response =
  status :: nat
  body :: body
  resp_headers :: "(string \<times> string) list"

definition textResponse :: "nat \<Rightarrow> string \<Rightarrow> response" where
  "textResponse code text = \<lparr>status = code, body = TextBody text, resp_headers = []\<rparr>"

text \<open>\<^verbatim>\<open>response.ok\<close>\<close>

definition ok :: "nat \<Rightarrow> bool" where
  "ok code = (200 \<le> code \<and> code \<le> 299)"

text \<open>
  The steps of the handler that the properties speak about, recorded in the order
  the code takes them: the tenant resolution with its outcome, the load of the
  tenant's credentials from its durable object, the signature verification with its
  result, the delivery log, the routing by event type.
\<close>

datatype effect =
  ResolveTenant "string option"
  | LoadCredentials string
  | VerifySignature "thrown + bool"
  | LogWebhook string
  | RouteEvent string

text \<open>
  The three event handlers are taken as parameters: each gets the parsed payload and
  the tenant's storage, and returns a response or throws, together with the storage
  it leaves.
\<close>

type_synonym event_handler = "json \<Rightarrow> storage \<Rightarrow> (thrown + response) \<times> storage"

record event_handlers =
  handleInstallationEvent :: event_handler
  handleInstallationRepositoriesEvent :: event_handler
  handleIssuesEvent :: event_handler

definition routeWebhookEvent ::
  "event_handlers \<Rightarrow> string \<Rightarrow> json \<Rightarrow> storage \<Rightarrow> (thrown + response) \<times> storage" where
  "routeWebhookEvent H event data st =
     (if event = ''installation'' then handleInstallationEvent H data st
      else if event = ''installation_repositories''
        then handleInstallationRepositoriesEvent H data st
      else if event = ''issues'' then handleIssuesEvent H data st
      else (Inr (textResponse 200 ''Event acknowledged''), st))"

text \<open>The answer to a ping; \<^verbatim>\<open>JSON.stringify\<close> leaves out an undefined \<^verbatim>\<open>zen\<close>.\<close>

definition pingResponse :: "json \<Rightarrow> response" where
  "pingResponse webhookData =
     \<lparr>status = 200,
      body = JsonBody (JObj ((''message'', JStr ''Webhook endpoint is active'') #
                (case getProp webhookData ''zen'' of None \<Rightarrow> [] | Some zen \<Rightarrow> [(''zen'', zen)]))),
      resp_headers = [(''Content-Type'', ''application/json'')]\<rparr>"

text \<open>
  The lines under \<^verbatim>\<open>Determine which app config to use\<close>: the app id, or the 400
  response when none is found; \<^verbatim>\<open>app_id.toString()\<close> can throw.
\<close>

definition determineAppId ::
  "platform \<Rightarrow> json \<Rightarrow> (string \<Rightarrow> string option) \<Rightarrow> string \<Rightarrow> thrown + (response + string)" where
  "determineAppId P webhookData header event =
     (let installation = getProp webhookData ''installation'';
          hookInstallationTargetId = orNull (header ''x-github-hook-installation-target-id'');
          fromHeader = (\<lambda>refusal. case hookInstallationTargetId of
                                      Some target \<Rightarrow> Inr (Inr target)
                                    | None \<Rightarrow> Inr (Inl (textResponse 400 refusal)));
          withoutAppId =
            (if truthy (optChain installation ''id'')
             then fromHeader ''Cannot determine app ID''
             else fromHeader (''No installation information for event: '' @ event))
      in case optChain installation ''app_id'' of
           None \<Rightarrow> withoutAppId
         | Some app_id \<Rightarrow>
             if truthy (Some app_id)
             then andThen (jsToString P app_id) (\<lambda>text. Inr (Inr text))
             else withoutAppId)"

text \<open>
  The handler from \<^verbatim>\<open>Get app configuration and decrypt webhook secret\<close> on. The
  durable object answers \<^verbatim>\<open>/get-credentials\<close> with status 200 and the result of
  \<^verbatim>\<open>getDecryptedCredentials\<close>, and \<^verbatim>\<open>/log-webhook\<close> by running \<^verbatim>\<open>logWebhook\<close>;
  \<open>stamp\<close> and \<open>now\<close> are its two clock readings. A throw anywhere reaches the outer
  \<^verbatim>\<open>catch\<close>, which answers 500.
\<close>

definition processForTenant ::
  "platform \<Rightarrow> event_handlers \<Rightarrow> string \<Rightarrow> string \<Rightarrow> (string \<Rightarrow> storage)
     \<Rightarrow> string \<Rightarrow> string \<Rightarrow> string \<Rightarrow> json \<Rightarrow> string
     \<Rightarrow> response \<times> (string \<Rightarrow> storage) \<times> effect list" where
  "processForTenant P H stamp now tenants payload sig event webhookData app_id =
     (let configDO = tenants app_id;
          configStatus = (200 :: nat)
      in case getDecryptedCredentials P configDO of
           Inl error \<Rightarrow>
             (textResponse 500 ''Internal server error'', tenants,
              [ResolveTenant (Some app_id), LoadCredentials app_id])
         | Inr creds \<Rightarrow>
             if \<not> ok configStatus
             then (textResponse 404 ''App not configured'', tenants,
                   [ResolveTenant (Some app_id), LoadCredentials app_id])
             else (case creds of
                     None \<Rightarrow>
                       (textResponse 500 ''Webhook secret not found'', tenants,
                        [ResolveTenant (Some app_id), LoadCredentials app_id])
                   | Some credentials \<Rightarrow>
                       if cred_webhookSecret credentials = []
                       then (textResponse 500 ''Webhook secret not found'', tenants,
                             [ResolveTenant (Some app_id), LoadCredentials app_id])
                       else (case verifyGitHubSignature P payload (Some sig)
                                     (cred_webhookSecret credentials) of
                               Inl error \<Rightarrow>
                                 (textResponse 500 ''Internal server error'', tenants,
                                  [ResolveTenant (Some app_id), LoadCredentials app_id,
                                   VerifySignature (Inl error)])
                             | Inr isValid \<Rightarrow>
                                 if \<not> isValid
                                 then (textResponse 401 ''Invalid signature'', tenants,
                                       [ResolveTenant (Some app_id), LoadCredentials app_id,
                                        VerifySignature (Inr False)])
                                 else (let logged = logWebhook stamp now configDO
                                       in case routeWebhookEvent H event webhookData logged of
                                            (Inr eventResponse, st') \<Rightarrow>
                                              (eventResponse, tenants(app_id := st'),
                                               [ResolveTenant (Some app_id), LoadCredentials app_id,
                                                VerifySignature (Inr True), LogWebhook app_id,
                                                RouteEvent event])
                                          | (Inl error, st') \<Rightarrow>
                                              (textResponse 500 ''Internal server error'',
                                               tenants(app_id := st'),
                                               [ResolveTenant (Some app_id), LoadCredentials app_id,
                                                VerifySignature (Inr True), LogWebhook app_id,
                                                RouteEvent event])))))"

text \<open>
  \<^verbatim>\<open>handleGitHubWebhook\<close>: the response, the tenants' storages afterwards and the
  steps taken. The check \<^verbatim>\<open>!signature || !event || !delivery\<close> comes first; a
  header that is absent or empty fails it. \<^verbatim>\<open>JSON.parse\<close> and the reads of the
  parsed value in the log call after it are inside the inner \<^verbatim>\<open>try\<close>, so a payload
  that does not parse, and the payload \<^verbatim>\<open>null\<close>, are answered 400.
\<close>

definition handleGitHubWebhook ::
  "platform \<Rightarrow> event_handlers \<Rightarrow> string \<Rightarrow> string \<Rightarrow> (string \<Rightarrow> storage) \<Rightarrow> webhook_request
     \<Rightarrow> response \<times> (string \<Rightarrow> storage) \<times> effect list" where
  "handleGitHubWebhook P H stamp now tenants request =
     (let payload = body_text request;
          signature = get_header request ''x-hub-signature-256'';
          event = get_header request ''x-github-event'';
          delivery = get_header request ''x-github-delivery''
      in case (orNull signature, orNull event, orNull delivery) of
           (Some sig, Some ev, Some del) \<Rightarrow>
             (case jsonParse P payload of
                None \<Rightarrow> (textResponse 400 ''Invalid JSON payload'', tenants, [])
              | Some JNull \<Rightarrow> (textResponse 400 ''Invalid JSON payload'', tenants, [])
              | Some webhookData \<Rightarrow>
                  if ev = ''ping'' then (pingResponse webhookData, tenants, [])
                  else (case determineAppId P webhookData (get_header request) ev of
                          Inl error \<Rightarrow>
                            (textResponse 500 ''Internal server error'', tenants,
                             [ResolveTenant None])
                        | Inr (Inl refusal) \<Rightarrow> (refusal, tenants, [ResolveTenant None])
                        | Inr (Inr app_id) \<Rightarrow>
                            processForTenant P H stamp now tenants payload sig ev
                              webhookData app_id))
         | _ \<Rightarrow> (textResponse 400 ''Missing required headers'', tenants, []))"

section \<open>Dispatch to the container (fetch.ts: src/unnamed/part_002)\<close>

record containerFetchOptions =
  containerName :: "string option"
  route :: "string option"
  timeout :: "nat option"

text \<open>
  What \<^verbatim>\<open>container.fetch(request)\<close> does: it resolves with a response or rejects with
  an error some milliseconds after the call, or never settles.
\<close>

datatype settlement = Resolves nat response | Rejects nat thrown | NeverSettles

definition timeoutError :: "nat \<Rightarrow> thrown" where
  "timeoutError ms = ErrorObj (''Container fetch timeout after '' @ showNat ms @ ''ms'')"

text \<open>
  \<^verbatim>\<open>Promise.race([container.fetch(request), timeoutPromise])\<close>: the promise that
  settles first decides. The timer rejects after \<open>ms\<close> milliseconds; a call that has
  settled by then, the same millisecond included, is the first in the list and wins.
\<close>

definition promiseRace :: "settlement \<Rightarrow> nat \<Rightarrow> thrown + response" where
  "promiseRace downstream ms =
     (case downstream of
        Resolves t r \<Rightarrow> if t \<le> ms then Inr r else Inl (timeoutError ms)
      | Rejects t e \<Rightarrow> if t \<le> ms then Inl e else Inl (timeoutError ms)
      | NeverSettles \<Rightarrow> Inl (timeoutError ms))"

definition failureResponse :: "thrown \<Rightarrow> string \<Rightarrow> string \<Rightarrow> response" where
  "failureResponse error container_name route_name =
     \<lparr>status = 500,
      body = JsonBody (JObj [(''error'', JStr ''Container fetch failed''),
                             (''message'', JStr (errorMessage error)),
                             (''containerName'', JStr container_name),
                             (''route'', JStr route_name)]),
      resp_headers = [(''Content-Type'', ''application/json'')]\<rparr>"

text \<open>
  The destructuring
  \<^verbatim>\<open>{ containerName = 'unknown', route = 'unknown', timeout = 300000 } = options\<close>.
\<close>

definition nameOf :: "containerFetchOptions \<Rightarrow> string" where
  "nameOf options = (case containerName options of None \<Rightarrow> ''unknown'' | Some n \<Rightarrow> n)"

definition routeOf :: "containerFetchOptions \<Rightarrow> string" where
  "routeOf options = (case route options of None \<Rightarrow> ''unknown'' | Some r \<Rightarrow> r)"

definition timeoutOf :: "containerFetchOptions \<Rightarrow> nat" where
  "timeoutOf options = (case timeout options of None \<Rightarrow> 300000 | Some t \<Rightarrow> t)"

text \<open>
  \<^verbatim>\<open>containerFetch(container, request, options)\<close>; \<open>downstream\<close> is what
  \<^verbatim>\<open>container.fetch(request)\<close> does. The result type keeps a throw visible as
  \<open>Inl\<close>.
\<close>

definition containerFetch :: "settlement \<Rightarrow> containerFetchOptions \<Rightarrow> thrown + response" where
  "containerFetch downstream options =
     tryCatch
       (andThen (promiseRace downstream (timeoutOf options)) (\<lambda>response. Inr response))
       (\<lambda>error. Inr (failureResponse error (nameOf options) (routeOf options)))"

section \<open>Example data\<close>

text \<open>
  A small platform for concrete runs. A text is held as the bytes of its UTF-8 form,
  so the encoder maps each character to its byte; the decoder, created with default
  options as in the code, removes a leading byte order mark (the bytes EF BB BF of
  U+FEFF) and maps the remaining bytes back. The cipher appends the key to the data
  and checks it on opening, so that opening with another key or a damaged blob throws;
  the base64 stand-in marks its output with a prefix and throws on text without it.
  Dates are the timestamps the runs below use, in milliseconds since 1970. A call
  takes 125000 spread arguments, and numbers are printed in decimal digits.
\<close>

definition exampleEncode :: "string \<Rightarrow> bytes" where
  "exampleEncode s = map (\<lambda>c. of_nat (of_char c)) s"

definition utf8Bom :: bytes where
  "utf8Bom = [0xEF, 0xBB, 0xBF]"

definition exampleDecode :: "bytes \<Rightarrow> string" where
  "exampleDecode bs = fromCharCodes (if take 3 bs = utf8Bom then drop 3 bs else bs)"

definition exampleSeal :: "bytes \<Rightarrow> bytes \<Rightarrow> bytes \<Rightarrow> bytes" where
  "exampleSeal k iv d = d @ k"

definition exampleOpen :: "bytes \<Rightarrow> bytes \<Rightarrow> bytes \<Rightarrow> thrown + bytes" where
  "exampleOpen k iv c =
     (if length k \<le> length c \<and> drop (length c - length k) c = k
      then Inr (take (length c - length k) c)
      else Inl (ErrorObj ''OperationError''))"

definition exampleBtoa :: "string \<Rightarrow> string" where
  "exampleBtoa binary = ''b64:'' @ binary"

definition exampleAtob :: "string \<Rightarrow> thrown + string" where
  "exampleAtob s =
     (if take 4 s = ''b64:'' then Inr (drop 4 s)
      else Inl (ErrorObj ''InvalidCharacterError''))"

definition exampleNumberToString :: "int \<Rightarrow> string" where
  "exampleNumberToString i =
     (if i < 0 then CHR ''-'' # showNat (nat (- i)) else showNat (nat i))"

definition exampleDateParse :: "string \<Rightarrow> int option" where
  "exampleDateParse s =
     map_of [(''2024-01-01T01:00:01Z'', 1704070801000),
             (''2024-01-01T01:57:00Z'', 1704074220000)] s"

definition exampleJwtSign :: "jwt_payload \<Rightarrow> string \<Rightarrow> thrown + string" where
  "exampleJwtSign payload private_key =
     (if private_key = [] then Inl (ErrorObj ''invalid key'') else Inr (''jwt-for-'' @ iss payload))"

definition exampleJsonParse :: "string \<Rightarrow> json option" where
  "exampleJsonParse s = map_of [(''{}'', JObj []), (''[]'', JArr []), (''null'', JNull)] s"

definition examplePlatform :: platform where
  "examplePlatform =
     \<lparr>textEncode = exampleEncode, textDecode = exampleDecode,
      hmacSha256 = (\<lambda>k m. k @ m),
      aesGcmEncrypt = exampleSeal, aesGcmDecrypt = exampleOpen,
      btoa = exampleBtoa, atob = exampleAtob,
      spreadLimit = 125000, numberToString = exampleNumberToString,
      dateParse = exampleDateParse, jwtSign = exampleJwtSign,
      jsonParse = exampleJsonParse\<rparr>"

text \<open>The text U+FEFF followed by \<^verbatim>\<open>key\<close>, in its UTF-8 form.\<close>

definition bomKey :: string where
  "bomKey = [CHR 0xEF, CHR 0xBB, CHR 0xBF] @ ''key''"

definition exampleIv :: bytes where
  "exampleIv = [1, 2, 3, 4, 5, 6, 7, 8, 9, 10, 11, 12]"

definition exampleOwner :: owner_info where
  "exampleOwner = \<lparr>owner_login = ''octocat'', owner_type = ''User'', owner_id = 1\<rparr>"

definition exampleRepo :: repository where
  "exampleRepo =
     \<lparr>repo_id = 42, repo_name = ''demo'', repo_full_name = ''octocat/demo'', repo_private = False\<rparr>"

definition exampleRepoRenamed :: repository where
  "exampleRepoRenamed =
     \<lparr>repo_id = 42, repo_name = ''demo2'', repo_full_name = ''octocat/demo2'', repo_private = True\<rparr>"

text \<open>A text of a million characters.\<close>

definition longText :: string where
  "longText = replicate 1000000 CHR ''a''"

text \<open>The blob \<^verbatim>\<open>encrypt\<close> returns for a text, and no text when it throws.\<close>

definition exampleBlob :: "string \<Rightarrow> string" where
  "exampleBlob x =
     (case encrypt examplePlatform exampleIv x None of Inr blob \<Rightarrow> blob | Inl error \<Rightarrow> [])"

text \<open>Tenant 12345 with installation 777; its two secrets are stored encrypted.\<close>

definition exampleConfig :: gitHubAppConfig where
  "exampleConfig =
     \<lparr>appId = ''12345'',
      privateKey = exampleBlob ''PRIVATE KEY'',
      webhookSecret = exampleBlob ''s3cr3t'',
      installationId = Some ''777'', owner = exampleOwner,
      permissions = [(''issues'', ''write'')], events = [''issues''],
      repositories = [], createdAt = ''2024-01-01T00:00:00.000Z'',
      lastWebhookAt = None, webhookCount = 0\<rparr>"

definition exampleStorage :: storage where
  "exampleStorage = storeAppConfig ''2024-01-01T00:00:00.000Z'' exampleConfig initializeTables"

text \<open>A network whose token endpoint answers 201 with the given token and expiry.\<close>

definition exampleNet :: "string \<Rightarrow> string \<Rightarrow> network" where
  "exampleNet tok expiresAt request =
     Inr \<lparr>resp_ok = True, resp_status = 201,
          resp_json = Inr \<lparr>td_token = tok, td_expires_at = expiresAt\<rparr>\<rparr>"

text \<open>
  A first call at 00:00:01 finds no cached token and stores token A, which expires at
  01:00:01. A second call at 00:57:00 finds A with 181 seconds left.
\<close>

definition clockFirst :: clock_reads where
  "clockFirst = \<lparr>checkNowMs = 1704067201000, jwtNowSec = 1704067201,
                  storeNowIso = ''2024-01-01T00:00:01.500Z''\<rparr>"

definition clockSecond :: clock_reads where
  "clockSecond = \<lparr>checkNowMs = 1704070620000, jwtNowSec = 1704070620,
                   storeNowIso = ''2024-01-01T00:57:00.500Z''\<rparr>"

definition clockTenPast :: clock_reads where
  "clockTenPast = \<lparr>checkNowMs = 1704067800000, jwtNowSec = 1704067800,
                    storeNowIso = ''2024-01-01T00:10:00.500Z''\<rparr>"

definition tokenRowA :: token_row where
  "tokenRowA = \<lparr>token = ''ghs_A'', expires_at = ''2024-01-01T01:00:01Z'',
                 created_at = ''2024-01-01T00:00:01.500Z''\<rparr>"

definition tokenRowB :: token_row where
  "tokenRowB = \<lparr>token = ''ghs_B'', expires_at = ''2024-01-01T01:57:00Z'',
                 created_at = ''2024-01-01T00:57:00.500Z''\<rparr>"

definition storageAfterFirst :: storage where
  "storageAfterFirst =
     fst (snd (getInstallationToken examplePlatform
                 (exampleNet ''ghs_A'' ''2024-01-01T01:00:01Z'') clockFirst exampleStorage))"

definition storageAfterSecond :: storage where
  "storageAfterSecond =
     fst (snd (getInstallationToken examplePlatform
                 (exampleNet ''ghs_B'' ''2024-01-01T01:57:00Z'') clockSecond storageAfterFirst))"

text \<open>
  After the first call the setup flow stores a configuration again, as the OAuth
  callback does: without an installation id.
\<close>

definition storageReconfigured :: storage where
  "storageReconfigured =
     storeAppConfig ''2024-01-01T00:05:00.000Z'' (exampleConfig\<lparr>installationId := None\<rparr>)
       storageAfterFirst"

text \<open>After the first call a configuration is stored whose private key is not a valid blob.\<close>

definition storageUndecryptable :: storage where
  "storageUndecryptable =
     storeAppConfig ''2024-01-01T00:05:00.000Z'' (exampleConfig\<lparr>privateKey := ''not base64''\<rparr>)
       storageAfterFirst"

text \<open>Requests to the webhook endpoint, from a list of headers and a body.\<close>

definition exampleRequest :: "(string \<times> string) list \<Rightarrow> string \<Rightarrow> webhook_request" where
  "exampleRequest hs text = \<lparr>body_text = text, get_header = map_of hs\<rparr>"

definition pingWithoutSignature :: webhook_request where
  "pingWithoutSignature =
     exampleRequest [(''x-github-event'', ''ping''), (''x-github-delivery'', ''d-1'')] ''{}''"

definition pingNotJson :: webhook_request where
  "pingNotJson =
     exampleRequest [(''x-hub-signature-256'', ''sha256=00''), (''x-github-event'', ''ping''),
                     (''x-github-delivery'', ''d-2'')] ''zen''"

definition pingComplete :: webhook_request where
  "pingComplete =
     exampleRequest [(''x-hub-signature-256'', ''sha256=00''), (''x-github-event'', ''ping''),
                     (''x-github-delivery'', ''d-3'')] ''{}''"

definition pingWithoutDelivery :: webhook_request where
  "pingWithoutDelivery =
     exampleRequest [(''x-hub-signature-256'', ''sha256=00''), (''x-github-event'', ''ping'')] ''{}''"

definition exampleHandlers :: event_handlers where
  "exampleHandlers =
     \<lparr>handleInstallationEvent =
        (\<lambda>data st. (Inr (textResponse 200 ''Installation event processed''), st)),
      handleInstallationRepositoriesEvent =
        (\<lambda>data st. (Inr (textResponse 200 ''Repository changes processed''), st)),
      handleIssuesEvent =
        (\<lambda>data st. (Inr (textResponse 200 ''Issues event processed''), st))\<rparr>"

definition noTenants :: "string \<Rightarrow> storage" where
  "noTenants app_id = initializeTables"

text \<open>A container that answers 404 after 10 ms, and options that name it.\<close>

definition notFoundResponse :: response where
  "notFoundResponse = \<lparr>status = 404, body = TextBody ''Not Found'', resp_headers = []\<rparr>"

definition exampleOptions :: containerFetchOptions where
  "exampleOptions = \<lparr>containerName = Some ''claude-issue-1'', route = Some ''/process-issue'',
                      timeout = None\<rparr>"

section \<open>Properties of the repository list\<close>

lemma orNull_idem: "orNull (orNull x) = orNull x"
  by (simp add: orNull_def split: option.splits)

lemma getAppConfig_storeAppConfig:
  "getAppConfig (storeAppConfig now config st) =
     Some (config\<lparr>installationId := orNull (installationId config),
                  lastWebhookAt := orNull (lastWebhookAt config)\<rparr>)"
  by (simp add: getAppConfig_def storeAppConfig_def orNull_idem)

lemma getAllRepositories_storeAppConfig:
  "getAllRepositories (storeAppConfig now config st) = repositories config"
  by (simp add: getAllRepositories_def getAppConfig_storeAppConfig)

lemma list_ex_filter_id:
  "list_ex (\<lambda>r. repo_id r = rid) rs \<longleftrightarrow> filter (\<lambda>r. repo_id r = rid) rs \<noteq> []"
  by (induction rs) auto

lemma filter_absent_id:
  "\<not> list_ex (\<lambda>r. repo_id r = rid) rs \<Longrightarrow> filter (\<lambda>r. repo_id r \<noteq> rid) rs = rs"
  by (induction rs) auto

lemma addRepository_present:
  assumes "getAppConfig st = Some config"
    and "list_ex (\<lambda>r. repo_id r = repo_id repo) (repositories config)"
  shows "addRepository now repo st = st"
  using assms by (simp add: addRepository_def)

lemma addRepository_absent:
  assumes "getAppConfig st = Some config"
    and "\<not> list_ex (\<lambda>r. repo_id r = repo_id repo) (repositories config)"
  shows "getAllRepositories (addRepository now repo st) = repositories config @ [repo]"
  using assms by (simp add: addRepository_def getAllRepositories_storeAppConfig)

lemma addRepository_twice:
  assumes "repo_id repo' = repo_id repo"
  shows "addRepository now' repo' (addRepository now repo st) = addRepository now repo st"
proof (cases "getAppConfig st")
  case None
  then show ?thesis by (simp add: addRepository_def)
next
  case (Some config)
  show ?thesis
  proof (cases "list_ex (\<lambda>r. repo_id r = repo_id repo) (repositories config)")
    case True
    with Some assms show ?thesis by (simp add: addRepository_def)
  next
    case False
    with Some have st': "addRepository now repo st =
        storeAppConfig now (config\<lparr>repositories := repositories config @ [repo]\<rparr>) st"
      by (simp add: addRepository_def)
    show ?thesis
      unfolding st'
      by (simp add: addRepository_def getAppConfig_storeAppConfig assms)
  qed
qed

text \<open>
  Claim C8. The stored repository list behaves as a set keyed by repository id. For a
  partition that holds a configuration: adding a repository whose id is already in the
  list leaves the whole storage, hence the list, unchanged; adding a repository whose
  id is new and then adding a repository with the same id again leaves exactly one
  entry with that id, the list being the old one followed by the first repository; and
  removing an id that is not in the list leaves the list unchanged.
\<close>

theorem repository_list_set_semantics:
  assumes "getAppConfig st = Some config"
  shows "(list_ex (\<lambda>r. repo_id r = repo_id repo) (repositories config) \<longrightarrow>
            addRepository now repo st = st)
       \<and> (\<not> list_ex (\<lambda>r. repo_id r = repo_id repo) (repositories config) \<and>
            repo_id repo' = repo_id repo \<longrightarrow>
            getAllRepositories (addRepository now' repo' (addRepository now repo st))
              = repositories config @ [repo]
          \<and> entriesWithId (repo_id repo) (addRepository now' repo' (addRepository now repo st))
              = [repo])
       \<and> (\<not> list_ex (\<lambda>r. repo_id r = rid) (repositories config) \<longrightarrow>
            getAllRepositories (removeRepository now rid st) = getAllRepositories st)"
proof (intro conjI impI)
  assume "list_ex (\<lambda>r. repo_id r = repo_id repo) (repositories config)"
  with assms show "addRepository now repo st = st"
    by (rule addRepository_present)
next
  assume h: "\<not> list_ex (\<lambda>r. repo_id r = repo_id repo) (repositories config) \<and>
             repo_id repo' = repo_id repo"
  then have twice: "addRepository now' repo' (addRepository now repo st) = addRepository now repo st"
    by (simp add: addRepository_twice)
  from assms h have once:
    "getAllRepositories (addRepository now repo st) = repositories config @ [repo]"
    by (simp add: addRepository_absent)
  show "getAllRepositories (addRepository now' repo' (addRepository now repo st))
          = repositories config @ [repo]"
    by (simp add: twice once)
  from h have "filter (\<lambda>r. repo_id r = repo_id repo) (repositories config) = []"
    by (simp add: list_ex_filter_id)
  then show "entriesWithId (repo_id repo) (addRepository now' repo' (addRepository now repo st))
          = [repo]"
    by (simp add: entriesWithId_def twice once)
next
  assume "\<not> list_ex (\<lambda>r. repo_id r = rid) (repositories config)"
  then have "filter (\<lambda>r. repo_id r \<noteq> rid) (repositories config) = repositories config"
    by (rule filter_absent_id)
  moreover from assms have "getAllRepositories (removeRepository now rid st)
      = filter (\<lambda>r. repo_id r \<noteq> rid) (repositories config)"
    by (simp add: removeRepository_def getAllRepositories_storeAppConfig)
  moreover from assms have "getAllRepositories st = repositories config"
    by (simp add: getAllRepositories_def)
  ultimately show "getAllRepositories (removeRepository now rid st) = getAllRepositories st"
    by simp
qed

theorem repository_list_set_semantics_witness:
  "getAppConfig (addRepository ''t0'' exampleRepo exampleStorage)
     = Some (exampleConfig\<lparr>repositories := [exampleRepo]\<rparr>)
   \<and> addRepository ''t1'' exampleRepoRenamed (addRepository ''t0'' exampleRepo exampleStorage)
     = addRepository ''t0'' exampleRepo exampleStorage
   \<and> getAllRepositories
       (addRepository ''t1'' exampleRepoRenamed (addRepository ''t0'' exampleRepo exampleStorage))
     = [exampleRepo]
   \<and> entriesWithId 42
       (addRepository ''t1'' exampleRepoRenamed (addRepository ''t0'' exampleRepo exampleStorage))
     = [exampleRepo]
   \<and> getAllRepositories (removeRepository ''t1'' 7 (addRepository ''t0'' exampleRepo exampleStorage))
     = [exampleRepo]"
proof -
  have cfg0: "getAppConfig exampleStorage = Some exampleConfig"
    by (simp add: exampleStorage_def getAppConfig_storeAppConfig exampleConfig_def orNull_def)
  have cfg1: "getAppConfig (addRepository ''t0'' exampleRepo exampleStorage)
      = Some (exampleConfig\<lparr>repositories := [exampleRepo]\<rparr>)"
    by (simp add: addRepository_def cfg0 getAppConfig_storeAppConfig)
       (simp add: exampleConfig_def orNull_def)
  have all1: "getAllRepositories (addRepository ''t0'' exampleRepo exampleStorage) = [exampleRepo]"
    by (simp add: getAllRepositories_def cfg1)
  have absent0: "\<not> list_ex (\<lambda>r. repo_id r = repo_id exampleRepo) (repositories exampleConfig)"
    by (simp add: exampleConfig_def)
  have same: "repo_id exampleRepoRenamed = repo_id exampleRepo"
    by (simp add: exampleRepo_def exampleRepoRenamed_def)
  have present1: "list_ex (\<lambda>r. repo_id r = repo_id exampleRepoRenamed)
      (repositories (exampleConfig\<lparr>repositories := [exampleRepo]\<rparr>))"
    by (simp add: same)
  have absent7: "\<not> list_ex (\<lambda>r. repo_id r = 7)
      (repositories (exampleConfig\<lparr>repositories := [exampleRepo]\<rparr>))"
    by (simp add: exampleRepo_def)
  have id42: "repo_id exampleRepo = 42"
    by (simp add: exampleRepo_def)
  note a = repository_list_set_semantics
      [OF cfg0, where repo = exampleRepo and repo' = exampleRepoRenamed
        and now = "''t0''" and now' = "''t1''" and rid = 7]
  note b = repository_list_set_semantics
      [OF cfg1, where repo = exampleRepoRenamed and repo' = exampleRepo
        and now = "''t1''" and now' = "''t1''" and rid = 7]
  from a absent0 same have two:
    "getAllRepositories
       (addRepository ''t1'' exampleRepoRenamed (addRepository ''t0'' exampleRepo exampleStorage))
     = repositories exampleConfig @ [exampleRepo]"
    and ents: "entriesWithId (repo_id exampleRepo)
       (addRepository ''t1'' exampleRepoRenamed (addRepository ''t0'' exampleRepo exampleStorage))
     = [exampleRepo]"
    by blast+
  from b present1 have noop:
    "addRepository ''t1'' exampleRepoRenamed (addRepository ''t0'' exampleRepo exampleStorage)
     = addRepository ''t0'' exampleRepo exampleStorage"
    by blast
  from b absent7 have rem:
    "getAllRepositories (removeRepository ''t1'' 7 (addRepository ''t0'' exampleRepo exampleStorage))
     = getAllRepositories (addRepository ''t0'' exampleRepo exampleStorage)"
    by blast
  have reps0: "repositories exampleConfig = []"
    by (simp add: exampleConfig_def)
  show ?thesis
    using cfg1 noop two ents rem by (simp add: reps0 id42 all1)
qed

section \<open>Properties of the encryption utilities\<close>

lemma unat_byte_mod: "unat (b :: byte) mod 256 = unat b"
proof -
  have "unat b < 2 ^ LENGTH(8)" by (rule unsigned_less)
  then show ?thesis by simp
qed

lemma charCodes_fromCharCodes: "charCodes (fromCharCodes bs) = bs"
  by (induction bs) (simp_all add: fromCharCodes_def charCodes_def unat_byte_mod)

lemma fromCharCodes_charCodes: "fromCharCodes (charCodes s) = s"
  by (induction s) (simp_all add: fromCharCodes_def charCodes_def unat_of_nat)

lemma encrypt_fits:
  assumes "length (iv @ aesGcmEncrypt P (keyMaterial P key) iv (textEncode P x)) \<le> spreadLimit P"
  shows "encrypt P iv x key =
           Inr (btoa P (fromCharCodes
                  (iv @ aesGcmEncrypt P (keyMaterial P key) iv (textEncode P x))))"
  using assms by (simp add: encrypt_def Let_def)

lemma encrypt_too_long:
  assumes "spreadLimit P < length (iv @ aesGcmEncrypt P (keyMaterial P key) iv (textEncode P x))"
  shows "encrypt P iv x key = Inl rangeError"
  using assms by (simp add: encrypt_def Let_def)

lemma decrypt_blob:
  assumes "aesGcmInverse P" and "base64Inverse P" and "length iv = 12"
  shows "decrypt P (btoa P (fromCharCodes (iv @ aesGcmEncrypt P (keyMaterial P key) iv d))) key
           = Inr (textDecode P d)"
proof -
  have b64: "atob P (btoa P s) = Inr s" for s
    using assms(2) by (simp add: base64Inverse_def)
  have aes: "aesGcmDecrypt P k iv (aesGcmEncrypt P k iv d) = Inr d" for k
    using assms(1) by (simp add: aesGcmInverse_def)
  show ?thesis
    by (simp add: decrypt_def b64 andThen_def Let_def charCodes_fromCharCodes assms(3) aes)
qed

lemma decrypt_encrypt:
  assumes "aesGcmInverse P" and "base64Inverse P" and "length iv = 12"
    and "length (iv @ aesGcmEncrypt P (keyMaterial P key) iv (textEncode P x)) \<le> spreadLimit P"
  shows "andThen (encrypt P iv x key) (\<lambda>blob. decrypt P blob key)
           = Inr (textDecode P (textEncode P x))"
  by (simp add: encrypt_fits [OF assms(4)] andThen_def decrypt_blob [OF assms(1,2,3)])

lemma examplePlatform_aesGcmInverse: "aesGcmInverse examplePlatform"
  by (simp add: aesGcmInverse_def examplePlatform_def exampleSeal_def exampleOpen_def)

lemma examplePlatform_base64Inverse: "base64Inverse examplePlatform"
  by (simp add: base64Inverse_def examplePlatform_def exampleBtoa_def exampleAtob_def)

lemma exampleEncode_charCodes: "exampleEncode = charCodes"
  by (rule ext) (simp add: exampleEncode_def charCodes_def)

lemma examplePlatform_text:
  assumes "take 3 (exampleEncode x) \<noteq> utf8Bom"
  shows "textDecode examplePlatform (textEncode examplePlatform x) = x"
  using assms
  by (simp add: examplePlatform_def exampleDecode_def exampleEncode_charCodes
      fromCharCodes_charCodes)

lemma exampleIv_length: "length exampleIv = 12"
  by (simp add: exampleIv_def)

lemma example_length:
  "length (exampleIv @ aesGcmEncrypt examplePlatform (keyMaterial examplePlatform None) exampleIv
             (textEncode examplePlatform x)) = 44 + length x"
  by (simp add: exampleIv_def examplePlatform_def exampleSeal_def keyMaterial_def
      exampleEncode_def staticKeyMaterial_def)

lemma exampleBlob_decrypt:
  assumes "take 3 (exampleEncode x) \<noteq> utf8Bom" and "length x \<le> 1000"
  shows "decrypt examplePlatform (exampleBlob x) None = Inr x"
proof -
  from assms(2) have fits: "length (exampleIv @ aesGcmEncrypt examplePlatform
      (keyMaterial examplePlatform None) exampleIv (textEncode examplePlatform x))
      \<le> spreadLimit examplePlatform"
    unfolding example_length by (simp add: examplePlatform_def)
  show ?thesis
    by (simp add: exampleBlob_def encrypt_fits [OF fits]
        decrypt_blob [OF examplePlatform_aesGcmInverse examplePlatform_base64Inverse
          exampleIv_length]
        examplePlatform_text [OF assms(1)])
qed

lemma no_bom_secret: "take 3 (exampleEncode ''s3cr3t'') \<noteq> utf8Bom"
  by (simp add: exampleEncode_def utf8Bom_def)

lemma no_bom_private_key: "take 3 (exampleEncode ''PRIVATE KEY'') \<noteq> utf8Bom"
  by (simp add: exampleEncode_def utf8Bom_def)

lemma example_private_key:
  "decrypt examplePlatform (exampleBlob ''PRIVATE KEY'') None = Inr ''PRIVATE KEY''"
  by (rule exampleBlob_decrypt [OF no_bom_private_key]) simp

lemma example_secret:
  "decrypt examplePlatform (exampleBlob ''s3cr3t'') None = Inr ''s3cr3t''"
  by (rule exampleBlob_decrypt [OF no_bom_secret]) simp

text \<open>
  Claim C2, as the code has it. On a platform whose AES-GCM decryption undoes its
  encryption and whose \<^verbatim>\<open>atob\<close> undoes its \<^verbatim>\<open>btoa\<close>, for every twelve-byte IV and
  for the default key as well as a key passed to both calls: when the IV and the
  ciphertext of \<open>x\<close> together are no more bytes than the engine takes as spread
  arguments, \<^verbatim>\<open>encrypt\<close> returns a blob and decrypting it returns what the text
  decoder makes of the encoding of \<open>x\<close>; so it returns \<open>x\<close> exactly when the decoder
  restores \<open>x\<close> from its encoding. When they are more, \<^verbatim>\<open>encrypt\<close> throws a
  \<^verbatim>\<open>RangeError\<close> and nothing is decrypted.
\<close>

theorem decrypt_encrypt_roundtrip:
  assumes "aesGcmInverse P" and "base64Inverse P" and "length iv = 12"
  shows "(length (iv @ aesGcmEncrypt P (keyMaterial P key) iv (textEncode P x)) \<le> spreadLimit P
            \<longrightarrow> (\<exists>blob. encrypt P iv x key = Inr blob)
              \<and> andThen (encrypt P iv x key) (\<lambda>blob. decrypt P blob key)
                  = Inr (textDecode P (textEncode P x))
              \<and> (andThen (encrypt P iv x key) (\<lambda>blob. decrypt P blob key) = Inr x
                    \<longleftrightarrow> textDecode P (textEncode P x) = x))
       \<and> (spreadLimit P < length (iv @ aesGcmEncrypt P (keyMaterial P key) iv (textEncode P x))
            \<longrightarrow> encrypt P iv x key = Inl rangeError
              \<and> andThen (encrypt P iv x key) (\<lambda>blob. decrypt P blob key) = Inl rangeError)"
proof (intro conjI impI)
  assume fits: "length (iv @ aesGcmEncrypt P (keyMaterial P key) iv (textEncode P x))
      \<le> spreadLimit P"
  show "\<exists>blob. encrypt P iv x key = Inr blob"
    by (simp add: encrypt_fits [OF fits])
  show restored: "andThen (encrypt P iv x key) (\<lambda>blob. decrypt P blob key)
      = Inr (textDecode P (textEncode P x))"
    by (rule decrypt_encrypt [OF assms fits])
  show "andThen (encrypt P iv x key) (\<lambda>blob. decrypt P blob key) = Inr x
      \<longleftrightarrow> textDecode P (textEncode P x) = x"
    by (simp add: restored)
next
  assume long: "spreadLimit P
      < length (iv @ aesGcmEncrypt P (keyMaterial P key) iv (textEncode P x))"
  show "encrypt P iv x key = Inl rangeError"
    by (rule encrypt_too_long [OF long])
  then show "andThen (encrypt P iv x key) (\<lambda>blob. decrypt P blob key) = Inl rangeError"
    by (simp add: andThen_def)
qed

theorem decrypt_encrypt_roundtrip_witness:
  "aesGcmInverse examplePlatform \<and> base64Inverse examplePlatform \<and> length exampleIv = 12
   \<and> textDecode examplePlatform (textEncode examplePlatform ''s3cr3t'') = ''s3cr3t''
   \<and> andThen (encrypt examplePlatform exampleIv ''s3cr3t'' None)
        (\<lambda>blob. decrypt examplePlatform blob None) = Inr ''s3cr3t''
   \<and> encrypt examplePlatform exampleIv longText None = Inl rangeError"
proof -
  note inst = decrypt_encrypt_roundtrip [OF examplePlatform_aesGcmInverse
      examplePlatform_base64Inverse exampleIv_length, where key = None]
  have short: "length (exampleIv @ aesGcmEncrypt examplePlatform
      (keyMaterial examplePlatform None) exampleIv (textEncode examplePlatform ''s3cr3t''))
      \<le> spreadLimit examplePlatform"
    unfolding example_length by (simp add: examplePlatform_def)
  have long: "spreadLimit examplePlatform < length (exampleIv @ aesGcmEncrypt examplePlatform
      (keyMaterial examplePlatform None) exampleIv (textEncode examplePlatform longText))"
    unfolding example_length by (simp add: examplePlatform_def longText_def)
  note codec = examplePlatform_text [OF no_bom_secret]
  from inst [of "''s3cr3t''"] short codec
  have "andThen (encrypt examplePlatform exampleIv ''s3cr3t'' None)
        (\<lambda>blob. decrypt examplePlatform blob None) = Inr ''s3cr3t''"
    by simp
  moreover from inst [of longText] long
  have "encrypt examplePlatform exampleIv longText None = Inl rangeError"
    by blast
  ultimately show ?thesis
    using examplePlatform_aesGcmInverse examplePlatform_base64Inverse exampleIv_length codec
    by blast
qed

text \<open>
  The claim read for every string fails in two ways. For a text that begins with
  U+FEFF, the decoder in \<^verbatim>\<open>decrypt\<close> is \<^verbatim>\<open>new TextDecoder()\<close>, which removes a
  leading byte order mark, so the text comes back without its first character. For
  a text of a million characters, \<^verbatim>\<open>String.fromCharCode(...combined)\<close> in
  \<^verbatim>\<open>encrypt\<close> is a call with more than a million arguments, which throws, so there
  is nothing to decrypt.
\<close>

theorem leading_bom_not_restored_counterexample:
  "textEncode examplePlatform bomKey = utf8Bom @ textEncode examplePlatform ''key''
   \<and> andThen (encrypt examplePlatform exampleIv bomKey None)
        (\<lambda>blob. decrypt examplePlatform blob None) = Inr ''key''
   \<and> bomKey \<noteq> ''key''
   \<and> length longText = 1000000
   \<and> andThen (encrypt examplePlatform exampleIv longText None)
        (\<lambda>blob. decrypt examplePlatform blob None) = Inl rangeError"
proof -
  have e: "textEncode examplePlatform bomKey = utf8Bom @ textEncode examplePlatform ''key''"
    by (simp add: examplePlatform_def exampleEncode_def bomKey_def utf8Bom_def)
  have fits: "length (exampleIv @ aesGcmEncrypt examplePlatform
      (keyMaterial examplePlatform None) exampleIv (textEncode examplePlatform bomKey))
      \<le> spreadLimit examplePlatform"
    unfolding example_length by (simp add: examplePlatform_def bomKey_def)
  have dec: "textDecode examplePlatform (utf8Bom @ textEncode examplePlatform ''key'') = ''key''"
    by (simp add: examplePlatform_def exampleDecode_def utf8Bom_def exampleEncode_charCodes
        fromCharCodes_charCodes)
  have bom: "andThen (encrypt examplePlatform exampleIv bomKey None)
        (\<lambda>blob. decrypt examplePlatform blob None) = Inr ''key''"
    using decrypt_encrypt [OF examplePlatform_aesGcmInverse examplePlatform_base64Inverse
        exampleIv_length fits]
    by (simp add: e dec)
  have long: "spreadLimit examplePlatform < length (exampleIv @ aesGcmEncrypt examplePlatform
      (keyMaterial examplePlatform None) exampleIv (textEncode examplePlatform longText))"
    unfolding example_length by (simp add: examplePlatform_def longText_def)
  have thrown: "andThen (encrypt examplePlatform exampleIv longText None)
        (\<lambda>blob. decrypt examplePlatform blob None) = Inl rangeError"
    by (simp add: encrypt_too_long [OF long] andThen_def)
  show ?thesis
    using e bom thrown by (simp add: bomKey_def longText_def)
qed

section \<open>Properties of the decrypted credentials\<close>

lemma getDecryptedCredentials_cases:
  "getDecryptedCredentials P st =
     Inr (case getAppConfig st of
            None \<Rightarrow> None
          | Some config \<Rightarrow>
              (case decrypt P (privateKey config) None of
                 Inl e \<Rightarrow> None
               | Inr private_key \<Rightarrow>
                   (case decrypt P (webhookSecret config) None of
                      Inl e \<Rightarrow> None
                    | Inr webhook_secret \<Rightarrow>
                        Some \<lparr>cred_privateKey = private_key,
                              cred_webhookSecret = webhook_secret\<rparr>)))"
  by (simp add: getDecryptedCredentials_def tryCatch_def andThen_def
      split: option.splits sum.splits)

text \<open>
  Claim C6. \<^verbatim>\<open>getDecryptedCredentials\<close> never throws: for every platform and every
  storage its result is a returned value. That value is \<^verbatim>\<open>null\<close> when no
  configuration is stored, \<^verbatim>\<open>null\<close> when decrypting the private key or the webhook
  secret throws, and the pair of the two decrypted texts otherwise.
\<close>

theorem getDecryptedCredentials_null_or_pair:
  "getDecryptedCredentials P st =
     Inr (case getAppConfig st of
            None \<Rightarrow> None
          | Some config \<Rightarrow>
              (case decrypt P (privateKey config) None of
                 Inl e \<Rightarrow> None
               | Inr private_key \<Rightarrow>
                   (case decrypt P (webhookSecret config) None of
                      Inl e \<Rightarrow> None
                    | Inr webhook_secret \<Rightarrow>
                        Some \<lparr>cred_privateKey = private_key,
                              cred_webhookSecret = webhook_secret\<rparr>)))"
  by (rule getDecryptedCredentials_cases)

theorem getDecryptedCredentials_null_or_pair_witness:
  "getDecryptedCredentials examplePlatform initializeTables = Inr None
   \<and> getDecryptedCredentials examplePlatform exampleStorage
       = Inr (Some \<lparr>cred_privateKey = ''PRIVATE KEY'', cred_webhookSecret = ''s3cr3t''\<rparr>)
   \<and> getDecryptedCredentials examplePlatform
         (storeAppConfig ''2024-01-01T00:00:02.000Z''
            (exampleConfig\<lparr>webhookSecret := ''not base64''\<rparr>) exampleStorage)
       = Inr None"
proof -
  have none: "getAppConfig initializeTables = None"
    by (simp add: getAppConfig_def initializeTables_def)
  have cfg: "getAppConfig exampleStorage = Some exampleConfig"
    by (simp add: exampleStorage_def getAppConfig_storeAppConfig)
       (simp add: exampleConfig_def orNull_def)
  have cfg': "getAppConfig (storeAppConfig ''2024-01-01T00:00:02.000Z''
            (exampleConfig\<lparr>webhookSecret := ''not base64''\<rparr>) exampleStorage)
        = Some (exampleConfig\<lparr>webhookSecret := ''not base64''\<rparr>)"
    by (simp add: getAppConfig_storeAppConfig) (simp add: exampleConfig_def orNull_def)
  have pk: "decrypt examplePlatform (privateKey exampleConfig) None = Inr ''PRIVATE KEY''"
    by (simp add: exampleConfig_def example_private_key)
  have ws: "decrypt examplePlatform (webhookSecret exampleConfig) None = Inr ''s3cr3t''"
    by (simp add: exampleConfig_def example_secret)
  have bad: "decrypt examplePlatform ''not base64'' None = Inl (ErrorObj ''InvalidCharacterError'')"
    by (simp add: decrypt_def andThen_def examplePlatform_def exampleAtob_def)
  show ?thesis
    using getDecryptedCredentials_null_or_pair [of examplePlatform initializeTables]
      getDecryptedCredentials_null_or_pair [of examplePlatform exampleStorage]
      getDecryptedCredentials_null_or_pair [of examplePlatform
        "storeAppConfig ''2024-01-01T00:00:02.000Z''
            (exampleConfig\<lparr>webhookSecret := ''not base64''\<rparr>) exampleStorage"]
    by (simp add: none cfg cfg' pk ws bad)
qed

section \<open>Properties of the installation token cache\<close>

lemma getAppConfig_installationId:
  assumes "getAppConfig st = Some config"
  shows "orNull (installationId config) = installationId config"
  using assms
  by (auto simp: getAppConfig_def orNull_idem split: option.splits prod.splits)

lemma generateInstallationToken_sent:
  assumes "generateAppJWT P nowSec app_id private_key = Inr appJWT"
  shows "snd (generateInstallationToken P net nowSec app_id private_key installation_id)
           = [accessTokenRequest installation_id appJWT]"
  using assms
  by (simp add: generateInstallationToken_def Let_def split: sum.splits)

lemma generateNewToken_sent:
  assumes "getDecryptedCredentials P st = Inr (Some creds)"
    and "generateAppJWT P (jwtNowSec clk) (appId config) (cred_privateKey creds) = Inr appJWT"
  shows "snd (snd (generateNewToken P net clk config installation_id st))
           = [accessTokenRequest installation_id appJWT]"
proof -
  obtain r sent where g: "generateInstallationToken P net (jwtNowSec clk) (appId config)
      (cred_privateKey creds) installation_id = (r, sent)"
    by (cases "generateInstallationToken P net (jwtNowSec clk) (appId config)
      (cred_privateKey creds) installation_id")
  with generateInstallationToken_sent [OF assms(2), of net installation_id]
  have "sent = [accessTokenRequest installation_id appJWT]" by simp
  with g assms(1) show ?thesis
    by (cases r) (simp_all add: generateNewToken_def)
qed

lemma generateNewToken_Some:
  assumes "generateNewToken P net clk config installation_id st = (Some t, st', sent)"
  shows "sent \<noteq> [] \<and> (\<exists>expiresAt.
           st' = storeInstallationTokenSQLite (storeNowIso clk) t expiresAt st)"
proof -
  from assms obtain creds where c: "getDecryptedCredentials P st = Inr (Some creds)"
    by (auto simp: generateNewToken_def split: sum.splits option.splits)
  obtain r sent' where g: "generateInstallationToken P net (jwtNowSec clk) (appId config)
      (cred_privateKey creds) installation_id = (r, sent')"
    by (cases "generateInstallationToken P net (jwtNowSec clk) (appId config)
      (cred_privateKey creds) installation_id")
  from assms c g obtain td where r: "r = Some td" and t: "t = td_token td"
    and st': "st' = storeInstallationTokenSQLite (storeNowIso clk) (td_token td)
                      (td_expires_at td) st"
    and s: "sent = sent'"
    by (cases r) (auto simp: generateNewToken_def)
  from g r have "sent' \<noteq> []"
    by (auto simp: generateInstallationToken_def Let_def split: sum.splits if_splits)
  with s st' t show ?thesis by blast
qed

lemma generateNewToken_success:
  assumes "getDecryptedCredentials P st = Inr (Some creds)"
    and "generateAppJWT P (jwtNowSec clk) (appId config) (cred_privateKey creds) = Inr appJWT"
    and "net (accessTokenRequest installation_id appJWT) = Inr response"
    and "resp_ok response" and "resp_json response = Inr tokenData"
  shows "generateNewToken P net clk config installation_id st =
           (Some (td_token tokenData),
            storeInstallationTokenSQLite (storeNowIso clk) (td_token tokenData)
              (td_expires_at tokenData) st,
            [accessTokenRequest installation_id appJWT])"
  using assms
  by (simp add: generateNewToken_def generateInstallationToken_def Let_def)

lemma latestRow_None: "latestRow rows = None \<longleftrightarrow> rows = []"
  by (cases rows) (auto split: option.splits if_splits)

lemma latestRow_greatest:
  assumes "latestRow rows = Some c"
  shows "c \<in> set rows \<and> (\<forall>r \<in> set rows. created_at r \<le> created_at c)"
  using assms
proof (induction rows arbitrary: c)
  case Nil
  then show ?case by simp
next
  case (Cons r rows)
  show ?case
  proof (cases "latestRow rows")
    case None
    then have "rows = []" by (simp add: latestRow_None)
    with Cons.prems show ?thesis by simp
  next
    case (Some b)
    from Cons.IH [OF Some] have b: "b \<in> set rows" "\<forall>x \<in> set rows. created_at x \<le> created_at b"
      by simp_all
    show ?thesis
    proof (cases "created_at r < created_at b")
      case True
      with Some Cons.prems have "c = b" by simp
      with b True show ?thesis by auto
    next
      case False
      with Some Cons.prems have "c = r" by simp
      moreover from False have "created_at b \<le> created_at r" by simp
      ultimately show ?thesis using b by auto
    qed
  qed
qed

lemma getInstallationToken_hit:
  assumes "getAppConfig st = Some config"
    and "installationId config = Some installation_id"
    and "getCachedInstallationToken st = Some c"
    and "expiresInMoreThan5Min P (expires_at c) (checkNowMs clk)"
  shows "getInstallationToken P net clk st = (Some (token c), st, [])"
  using assms getAppConfig_installationId [OF assms(1)]
  by (simp add: getInstallationToken_def)

lemma getInstallationToken_miss:
  assumes "getAppConfig st = Some config"
    and "installationId config = Some installation_id"
    and "getCachedInstallationToken st = None \<or>
         (\<exists>c. getCachedInstallationToken st = Some c \<and>
              \<not> expiresInMoreThan5Min P (expires_at c) (checkNowMs clk))"
  shows "getInstallationToken P net clk st = generateNewToken P net clk config installation_id st"
  using assms getAppConfig_installationId [OF assms(1)]
  by (auto simp: getInstallationToken_def)

lemma getInstallationToken_Some:
  assumes "getInstallationToken P net clk st = (Some t, st', sent)" and "sent \<noteq> []"
  shows "\<exists>expiresAt. st' = storeInstallationTokenSQLite (storeNowIso clk) t expiresAt st"
proof -
  from assms obtain config installation_id where
    "generateNewToken P net clk config installation_id st = (Some t, st', sent)"
    by (auto simp: getInstallationToken_def split: option.splits if_splits)
  then show ?thesis
    by (auto dest: generateNewToken_Some)
qed

lemma example_getAppConfig:
  "getAppConfig (storeAppConfig now exampleConfig st) = Some exampleConfig"
  by (simp add: getAppConfig_storeAppConfig) (simp add: exampleConfig_def orNull_def)

lemma example_credentials:
  assumes "getAppConfig st = Some exampleConfig"
  shows "getDecryptedCredentials examplePlatform st =
           Inr (Some \<lparr>cred_privateKey = ''PRIVATE KEY'', cred_webhookSecret = ''s3cr3t''\<rparr>)"
proof -
  have pk: "decrypt examplePlatform (privateKey exampleConfig) None = Inr ''PRIVATE KEY''"
    by (simp add: exampleConfig_def example_private_key)
  have ws: "decrypt examplePlatform (webhookSecret exampleConfig) None = Inr ''s3cr3t''"
    by (simp add: exampleConfig_def example_secret)
  show ?thesis
    by (simp add: getDecryptedCredentials_cases assms pk ws)
qed

lemma example_jwt:
  "generateAppJWT examplePlatform nowSec (appId exampleConfig) ''PRIVATE KEY'' = Inr ''jwt-for-12345''"
  by (simp add: generateAppJWT_def examplePlatform_def exampleJwtSign_def exampleConfig_def)

lemma example_refresh:
  assumes "getAppConfig st = Some exampleConfig"
  shows "generateNewToken examplePlatform (exampleNet tok expiresAt) clk exampleConfig ''777'' st =
           (Some tok, storeInstallationTokenSQLite (storeNowIso clk) tok expiresAt st,
            [accessTokenRequest ''777'' ''jwt-for-12345''])"
  using generateNewToken_success [OF example_credentials [OF assms], of clk exampleConfig
      "''jwt-for-12345''" "exampleNet tok expiresAt" "''777''"
      "\<lparr>resp_ok = True, resp_status = 201,
        resp_json = Inr \<lparr>td_token = tok, td_expires_at = expiresAt\<rparr>\<rparr>"
      "\<lparr>td_token = tok, td_expires_at = expiresAt\<rparr>"]
  by (simp add: example_jwt exampleNet_def)

lemma exampleConfig_installationId: "installationId exampleConfig = Some ''777''"
  by (simp add: exampleConfig_def)

lemma exampleStorage_config: "getAppConfig exampleStorage = Some exampleConfig"
  by (simp add: exampleStorage_def example_getAppConfig)

lemma exampleStorage_tokens: "installation_tokens exampleStorage = []"
  by (simp add: exampleStorage_def storeAppConfig_def initializeTables_def)

lemma example_first_call:
  "getInstallationToken examplePlatform (exampleNet ''ghs_A'' ''2024-01-01T01:00:01Z'')
     clockFirst exampleStorage =
     (Some ''ghs_A'', exampleStorage\<lparr>installation_tokens := [tokenRowA]\<rparr>,
      [accessTokenRequest ''777'' ''jwt-for-12345''])"
proof -
  have "getCachedInstallationToken exampleStorage = None"
    by (simp add: getCachedInstallationToken_def exampleStorage_tokens)
  then have "getInstallationToken examplePlatform (exampleNet ''ghs_A'' ''2024-01-01T01:00:01Z'')
     clockFirst exampleStorage =
     generateNewToken examplePlatform (exampleNet ''ghs_A'' ''2024-01-01T01:00:01Z'')
       clockFirst exampleConfig ''777'' exampleStorage"
    using getInstallationToken_miss [OF exampleStorage_config exampleConfig_installationId]
    by simp
  then show ?thesis
    by (simp add: example_refresh [OF exampleStorage_config] storeInstallationTokenSQLite_def
        exampleStorage_tokens clockFirst_def tokenRowA_def)
qed

lemma storageAfterFirst_eq:
  "storageAfterFirst = exampleStorage\<lparr>installation_tokens := [tokenRowA]\<rparr>"
  by (simp add: storageAfterFirst_def example_first_call)

lemma storageAfterFirst_config: "getAppConfig storageAfterFirst = Some exampleConfig"
  using exampleStorage_config by (simp add: storageAfterFirst_eq getAppConfig_def)

lemma storageAfterFirst_cached: "getCachedInstallationToken storageAfterFirst = Some tokenRowA"
  by (simp add: storageAfterFirst_eq getCachedInstallationToken_def)

lemma tokenRowA_parse:
  "dateParse examplePlatform (expires_at tokenRowA) = Some 1704070801000"
  by (simp add: examplePlatform_def exampleDateParse_def tokenRowA_def)

lemma tokenRowA_expiring:
  "\<not> expiresInMoreThan5Min examplePlatform (expires_at tokenRowA) (checkNowMs clockSecond)"
  by (simp add: expiresInMoreThan5Min_def tokenRowA_parse clockSecond_def)

lemma tokenRowA_not_purged: "\<not> expires_at tokenRowA < storeNowIso clockSecond"
  by (simp add: tokenRowA_def clockSecond_def)

lemma example_second_call:
  "getInstallationToken examplePlatform (exampleNet ''ghs_B'' ''2024-01-01T01:57:00Z'')
     clockSecond storageAfterFirst =
     (Some ''ghs_B'', storageAfterFirst\<lparr>installation_tokens := [tokenRowA, tokenRowB]\<rparr>,
      [accessTokenRequest ''777'' ''jwt-for-12345''])"
proof -
  have "getInstallationToken examplePlatform (exampleNet ''ghs_B'' ''2024-01-01T01:57:00Z'')
     clockSecond storageAfterFirst =
     generateNewToken examplePlatform (exampleNet ''ghs_B'' ''2024-01-01T01:57:00Z'')
       clockSecond exampleConfig ''777'' storageAfterFirst"
    using getInstallationToken_miss [OF storageAfterFirst_config exampleConfig_installationId]
      storageAfterFirst_cached tokenRowA_expiring
    by simp
  moreover have "installation_tokens storageAfterFirst = [tokenRowA]"
    by (simp add: storageAfterFirst_eq)
  moreover have "\<lparr>token = ''ghs_B'', expires_at = ''2024-01-01T01:57:00Z'',
      created_at = storeNowIso clockSecond\<rparr> = tokenRowB"
    by (simp add: tokenRowB_def clockSecond_def)
  ultimately show ?thesis
    by (simp add: example_refresh [OF storageAfterFirst_config] storeInstallationTokenSQLite_def
        tokenRowA_not_purged)
qed

lemma getInstallationToken_no_config:
  assumes "getAppConfig st = None"
  shows "getInstallationToken P net clk st = (None, st, [])"
  using assms by (simp add: getInstallationToken_def)

lemma getInstallationToken_no_installation:
  assumes "getAppConfig st = Some config" and "installationId config = None"
  shows "getInstallationToken P net clk st = (None, st, [])"
  using assms by (simp add: getInstallationToken_def orNull_def)

lemma generateNewToken_no_credentials:
  assumes "getDecryptedCredentials P st = Inr None"
  shows "generateNewToken P net clk config installation_id st = (None, st, [])"
  using assms by (simp add: generateNewToken_def)

lemma generateNewToken_no_jwt:
  assumes "getDecryptedCredentials P st = Inr (Some creds)"
    and "generateAppJWT P (jwtNowSec clk) (appId config) (cred_privateKey creds) = Inl error"
  shows "generateNewToken P net clk config installation_id st = (None, st, [])"
  using assms by (simp add: generateNewToken_def generateInstallationToken_def)

text \<open>
  Claim C3, as the code has it. Without a stored configuration, and with a stored
  configuration that has no installation id, the call returns \<^verbatim>\<open>null\<close>, whatever is
  cached, leaves the storage as it is and sends no request. With a configuration
  that has an installation id: if the cached token (the row the cache lookup
  returns) has a parsable expiry more than 300000 ms after the clock reading of the
  check, the call returns that token, leaves the storage as it is and sends no
  request. If no token is cached, or the cached one has an unparsable expiry or one
  at most 300000 ms ahead, then: when the stored secrets do not decrypt, or they do
  and signing the app JWT throws, the call returns \<^verbatim>\<open>null\<close>, leaves the storage as
  it is and sends no request; when the secrets decrypt and the JWT is signed, the
  call sends exactly one request, the POST to the access-token endpoint of the
  installation, authorised with that JWT, and when that request is answered with a
  success status and a token, the call returns the new token.
\<close>

theorem getInstallationToken_cache_policy:
  "(getAppConfig st = None \<longrightarrow> getInstallationToken P net clk st = (None, st, []))
   \<and> (\<forall>config. getAppConfig st = Some config \<and> installationId config = None
        \<longrightarrow> getInstallationToken P net clk st = (None, st, []))
   \<and> (\<forall>config installation_id c e.
         getAppConfig st = Some config \<and> installationId config = Some installation_id
         \<and> getCachedInstallationToken st = Some c
         \<and> dateParse P (expires_at c) = Some e \<and> e - checkNowMs clk > 300000
        \<longrightarrow> getInstallationToken P net clk st = (Some (token c), st, []))
   \<and> (\<forall>config installation_id.
         getAppConfig st = Some config \<and> installationId config = Some installation_id
         \<and> (getCachedInstallationToken st = None \<or>
              (\<exists>c. getCachedInstallationToken st = Some c \<and>
                   (dateParse P (expires_at c) = None \<or>
                    (\<exists>e. dateParse P (expires_at c) = Some e \<and> e - checkNowMs clk \<le> 300000))))
        \<longrightarrow> (getDecryptedCredentials P st = Inr None
               \<longrightarrow> getInstallationToken P net clk st = (None, st, []))
          \<and> (\<forall>creds error.
                getDecryptedCredentials P st = Inr (Some creds)
                \<and> generateAppJWT P (jwtNowSec clk) (appId config) (cred_privateKey creds)
                    = Inl error
               \<longrightarrow> getInstallationToken P net clk st = (None, st, []))
          \<and> (\<forall>creds appJWT.
                getDecryptedCredentials P st = Inr (Some creds)
                \<and> generateAppJWT P (jwtNowSec clk) (appId config) (cred_privateKey creds)
                    = Inr appJWT
               \<longrightarrow> snd (snd (getInstallationToken P net clk st))
                     = [accessTokenRequest installation_id appJWT]
                 \<and> (\<forall>response tokenData.
                       net (accessTokenRequest installation_id appJWT) = Inr response
                       \<and> resp_ok response \<and> resp_json response = Inr tokenData
                      \<longrightarrow> fst (getInstallationToken P net clk st) = Some (td_token tokenData))))"
proof (intro conjI allI impI)
  assume "getAppConfig st = None"
  then show "getInstallationToken P net clk st = (None, st, [])"
    by (rule getInstallationToken_no_config)
next
  fix config
  assume "getAppConfig st = Some config \<and> installationId config = None"
  then show "getInstallationToken P net clk st = (None, st, [])"
    by (simp add: getInstallationToken_no_installation)
next
  fix config installation_id c e
  assume h: "getAppConfig st = Some config \<and> installationId config = Some installation_id
         \<and> getCachedInstallationToken st = Some c
         \<and> dateParse P (expires_at c) = Some e \<and> e - checkNowMs clk > 300000"
  then have "expiresInMoreThan5Min P (expires_at c) (checkNowMs clk)"
    by (simp add: expiresInMoreThan5Min_def)
  with h show "getInstallationToken P net clk st = (Some (token c), st, [])"
    by (simp add: getInstallationToken_hit)
next
  fix config installation_id
  assume h: "getAppConfig st = Some config \<and> installationId config = Some installation_id
         \<and> (getCachedInstallationToken st = None \<or>
              (\<exists>c. getCachedInstallationToken st = Some c \<and>
                   (dateParse P (expires_at c) = None \<or>
                    (\<exists>e. dateParse P (expires_at c) = Some e \<and> e - checkNowMs clk \<le> 300000))))"
  then have cfg: "getAppConfig st = Some config"
    and inst: "installationId config = Some installation_id"
    by simp_all
  from h have "getCachedInstallationToken st = None \<or>
         (\<exists>c. getCachedInstallationToken st = Some c \<and>
              \<not> expiresInMoreThan5Min P (expires_at c) (checkNowMs clk))"
    by (auto simp: expiresInMoreThan5Min_def)
  with cfg inst have miss: "getInstallationToken P net clk st
      = generateNewToken P net clk config installation_id st"
    by (rule getInstallationToken_miss)
  show "getInstallationToken P net clk st = (None, st, [])"
    if "getDecryptedCredentials P st = Inr None"
    using that by (simp add: miss generateNewToken_no_credentials)
  show "getInstallationToken P net clk st = (None, st, [])"
    if "getDecryptedCredentials P st = Inr (Some creds)
        \<and> generateAppJWT P (jwtNowSec clk) (appId config) (cred_privateKey creds) = Inl error"
    for creds error
    using that by (simp add: miss generateNewToken_no_jwt)
  show "snd (snd (getInstallationToken P net clk st)) = [accessTokenRequest installation_id appJWT]"
    if "getDecryptedCredentials P st = Inr (Some creds)
        \<and> generateAppJWT P (jwtNowSec clk) (appId config) (cred_privateKey creds) = Inr appJWT"
    for creds appJWT
    using that by (simp add: miss generateNewToken_sent)
  show "fst (getInstallationToken P net clk st) = Some (td_token tokenData)"
    if "getDecryptedCredentials P st = Inr (Some creds)
        \<and> generateAppJWT P (jwtNowSec clk) (appId config) (cred_privateKey creds) = Inr appJWT"
      and "net (accessTokenRequest installation_id appJWT) = Inr response
        \<and> resp_ok response \<and> resp_json response = Inr tokenData"
    for creds appJWT response tokenData
    using that by (simp add: miss generateNewToken_success)
qed

theorem getInstallationToken_cache_policy_witness:
  "getInstallationToken examplePlatform (exampleNet ''ghs_B'' ''2024-01-01T01:57:00Z'')
     clockTenPast storageAfterFirst = (Some ''ghs_A'', storageAfterFirst, [])
   \<and> snd (snd (getInstallationToken examplePlatform
                  (exampleNet ''ghs_B'' ''2024-01-01T01:57:00Z'') clockSecond storageAfterFirst))
       = [accessTokenRequest ''777'' ''jwt-for-12345'']
   \<and> fst (getInstallationToken examplePlatform
             (exampleNet ''ghs_B'' ''2024-01-01T01:57:00Z'') clockSecond storageAfterFirst)
       = Some ''ghs_B''
   \<and> getInstallationToken examplePlatform (exampleNet ''ghs_B'' ''2024-01-01T01:57:00Z'')
       clockSecond initializeTables = (None, initializeTables, [])"
proof -
  note policy = getInstallationToken_cache_policy
      [where P = examplePlatform and net = "exampleNet ''ghs_B'' ''2024-01-01T01:57:00Z''"]
  have fresh: "(1704070801000 :: int) - checkNowMs clockTenPast > 300000"
    by (simp add: clockTenPast_def)
  have stale: "(1704070801000 :: int) - checkNowMs clockSecond \<le> 300000"
    by (simp add: clockSecond_def)
  have none: "getAppConfig initializeTables = None"
    by (simp add: getAppConfig_def initializeTables_def)
  have answer: "exampleNet ''ghs_B'' ''2024-01-01T01:57:00Z''
        (accessTokenRequest ''777'' ''jwt-for-12345'')
      = Inr \<lparr>resp_ok = True, resp_status = 201,
             resp_json = Inr \<lparr>td_token = ''ghs_B'', td_expires_at = ''2024-01-01T01:57:00Z''\<rparr>\<rparr>"
    by (simp add: exampleNet_def)
  from policy [of storageAfterFirst clockTenPast] storageAfterFirst_config
    exampleConfig_installationId storageAfterFirst_cached tokenRowA_parse fresh
  have hit: "getInstallationToken examplePlatform (exampleNet ''ghs_B'' ''2024-01-01T01:57:00Z'')
     clockTenPast storageAfterFirst = (Some (token tokenRowA), storageAfterFirst, [])"
    by blast
  have miss: "getCachedInstallationToken storageAfterFirst = None \<or>
      (\<exists>c. getCachedInstallationToken storageAfterFirst = Some c \<and>
           (dateParse examplePlatform (expires_at c) = None \<or>
            (\<exists>e. dateParse examplePlatform (expires_at c) = Some e
                 \<and> e - checkNowMs clockSecond \<le> 300000)))"
    using storageAfterFirst_cached tokenRowA_parse stale by blast
  from policy [of storageAfterFirst clockSecond]
  have refresh: "getDecryptedCredentials examplePlatform storageAfterFirst = Inr (Some creds)
      \<and> generateAppJWT examplePlatform (jwtNowSec clockSecond) (appId exampleConfig)
           (cred_privateKey creds) = Inr appJWT
      \<longrightarrow> snd (snd (getInstallationToken examplePlatform
               (exampleNet ''ghs_B'' ''2024-01-01T01:57:00Z'') clockSecond storageAfterFirst))
             = [accessTokenRequest ''777'' appJWT]
         \<and> (\<forall>response tokenData.
               exampleNet ''ghs_B'' ''2024-01-01T01:57:00Z'' (accessTokenRequest ''777'' appJWT)
                 = Inr response
               \<and> resp_ok response \<and> resp_json response = Inr tokenData
              \<longrightarrow> fst (getInstallationToken examplePlatform
                     (exampleNet ''ghs_B'' ''2024-01-01T01:57:00Z'') clockSecond storageAfterFirst)
                   = Some (td_token tokenData))" for creds appJWT
    using storageAfterFirst_config exampleConfig_installationId miss by blast
  have creds: "getDecryptedCredentials examplePlatform storageAfterFirst
      = Inr (Some \<lparr>cred_privateKey = ''PRIVATE KEY'', cred_webhookSecret = ''s3cr3t''\<rparr>)"
    by (rule example_credentials [OF storageAfterFirst_config])
  have jwt: "generateAppJWT examplePlatform (jwtNowSec clockSecond) (appId exampleConfig)
      (cred_privateKey \<lparr>cred_privateKey = ''PRIVATE KEY'', cred_webhookSecret = ''s3cr3t''\<rparr>)
      = Inr ''jwt-for-12345''"
    by (simp add: example_jwt)
  from refresh [of "\<lparr>cred_privateKey = ''PRIVATE KEY'', cred_webhookSecret = ''s3cr3t''\<rparr>"
      "''jwt-for-12345''"] creds jwt
  have both: "snd (snd (getInstallationToken examplePlatform
               (exampleNet ''ghs_B'' ''2024-01-01T01:57:00Z'') clockSecond storageAfterFirst))
             = [accessTokenRequest ''777'' ''jwt-for-12345'']
      \<and> (\<forall>response tokenData.
               exampleNet ''ghs_B'' ''2024-01-01T01:57:00Z''
                 (accessTokenRequest ''777'' ''jwt-for-12345'') = Inr response
               \<and> resp_ok response \<and> resp_json response = Inr tokenData
              \<longrightarrow> fst (getInstallationToken examplePlatform
                     (exampleNet ''ghs_B'' ''2024-01-01T01:57:00Z'') clockSecond storageAfterFirst)
                   = Some (td_token tokenData))"
    by blast
  then have sent: "snd (snd (getInstallationToken examplePlatform
               (exampleNet ''ghs_B'' ''2024-01-01T01:57:00Z'') clockSecond storageAfterFirst))
             = [accessTokenRequest ''777'' ''jwt-for-12345'']"
    and new: "\<forall>response tokenData.
               exampleNet ''ghs_B'' ''2024-01-01T01:57:00Z''
                 (accessTokenRequest ''777'' ''jwt-for-12345'') = Inr response
               \<and> resp_ok response \<and> resp_json response = Inr tokenData
              \<longrightarrow> fst (getInstallationToken examplePlatform
                     (exampleNet ''ghs_B'' ''2024-01-01T01:57:00Z'') clockSecond storageAfterFirst)
                   = Some (td_token tokenData)"
    by blast+
  from new answer have got: "fst (getInstallationToken examplePlatform
             (exampleNet ''ghs_B'' ''2024-01-01T01:57:00Z'') clockSecond storageAfterFirst)
       = Some ''ghs_B''"
    by (metis api_response.select_convs(1) api_response.select_convs(3)
        token_data.select_convs(1))
  from policy [of initializeTables clockSecond] none
  have empty: "getInstallationToken examplePlatform (exampleNet ''ghs_B'' ''2024-01-01T01:57:00Z'')
       clockSecond initializeTables = (None, initializeTables, [])"
    by blast
  from hit sent got empty show ?thesis
    by (simp add: tokenRowA_def)
qed

text \<open>
  The claim read for every partition that holds a cached token fails in two ways.
  A partition whose configuration was stored again without an installation id still
  holds token A, 50 minutes from expiry, and the call returns \<^verbatim>\<open>null\<close>. A partition
  whose stored private key does not decrypt holds token A, 181 seconds from expiry,
  and the call returns \<^verbatim>\<open>null\<close> without sending any request.
\<close>

theorem cached_token_not_returned_counterexample:
  "getCachedInstallationToken storageReconfigured = Some tokenRowA
   \<and> dateParse examplePlatform (expires_at tokenRowA) = Some 1704070801000
   \<and> (1704070801000 :: int) - checkNowMs clockTenPast > 300000
   \<and> getInstallationToken examplePlatform (exampleNet ''ghs_B'' ''2024-01-01T01:57:00Z'')
       clockTenPast storageReconfigured = (None, storageReconfigured, [])
   \<and> getCachedInstallationToken storageUndecryptable = Some tokenRowA
   \<and> (1704070801000 :: int) - checkNowMs clockSecond \<le> 300000
   \<and> getInstallationToken examplePlatform (exampleNet ''ghs_B'' ''2024-01-01T01:57:00Z'')
       clockSecond storageUndecryptable = (None, storageUndecryptable, [])"
proof -
  have c1: "getCachedInstallationToken storageReconfigured = Some tokenRowA"
    by (simp add: storageReconfigured_def storeAppConfig_def storageAfterFirst_eq
        getCachedInstallationToken_def)
  have cfg1: "getAppConfig storageReconfigured = Some (exampleConfig\<lparr>installationId := None\<rparr>)"
    by (simp add: storageReconfigured_def getAppConfig_storeAppConfig)
       (simp add: exampleConfig_def orNull_def)
  have r1: "getInstallationToken examplePlatform (exampleNet ''ghs_B'' ''2024-01-01T01:57:00Z'')
       clockTenPast storageReconfigured = (None, storageReconfigured, [])"
    by (simp add: getInstallationToken_def cfg1 orNull_def)
  have c2: "getCachedInstallationToken storageUndecryptable = Some tokenRowA"
    by (simp add: storageUndecryptable_def storeAppConfig_def storageAfterFirst_eq
        getCachedInstallationToken_def)
  have cfg2: "getAppConfig storageUndecryptable
      = Some (exampleConfig\<lparr>privateKey := ''not base64''\<rparr>)"
    by (simp add: storageUndecryptable_def getAppConfig_storeAppConfig)
       (simp add: exampleConfig_def orNull_def)
  have bad: "decrypt examplePlatform ''not base64'' None = Inl (ErrorObj ''InvalidCharacterError'')"
    by (simp add: decrypt_def andThen_def examplePlatform_def exampleAtob_def)
  have creds2: "getDecryptedCredentials examplePlatform storageUndecryptable = Inr None"
    by (simp add: getDecryptedCredentials_cases cfg2 bad)
  have inst2: "installationId (exampleConfig\<lparr>privateKey := ''not base64''\<rparr>) = Some ''777''"
    by (simp add: exampleConfig_def)
  have "getInstallationToken examplePlatform (exampleNet ''ghs_B'' ''2024-01-01T01:57:00Z'')
       clockSecond storageUndecryptable =
       generateNewToken examplePlatform (exampleNet ''ghs_B'' ''2024-01-01T01:57:00Z'')
         clockSecond (exampleConfig\<lparr>privateKey := ''not base64''\<rparr>) ''777'' storageUndecryptable"
    using getInstallationToken_miss [OF cfg2 inst2] c2 tokenRowA_expiring by simp
  then have r2: "getInstallationToken examplePlatform
       (exampleNet ''ghs_B'' ''2024-01-01T01:57:00Z'')
       clockSecond storageUndecryptable = (None, storageUndecryptable, [])"
    by (simp add: generateNewToken_def creds2)
  show ?thesis
    using c1 r1 c2 r2 tokenRowA_parse
    by (simp add: clockTenPast_def clockSecond_def)
qed

text \<open>
  Claim C4, as the code has it. Whenever \<^verbatim>\<open>getInstallationToken\<close> returns a newly
  exchanged token (a request was sent), the token table afterwards is the old table
  without the rows whose \<^verbatim>\<open>expires_at\<close> text sorts before the timestamp of the store,
  followed by one new row for the returned token; so every older row that is still
  there has not expired by that comparison, no unexpired row was dropped, the row
  count is the number of unexpired old rows plus one, and the other tables are
  untouched. The cache lookup on the new table reads one of its rows, one whose
  \<^verbatim>\<open>created_at\<close> no other row exceeds.
\<close>

theorem newly_exchanged_token_purges_expired_rows:
  assumes "getInstallationToken P net clk st = (Some t, st', sent)" and "sent \<noteq> []"
  shows "(\<exists>expiresAt.
            installation_tokens st' =
              filter (\<lambda>r. \<not> expires_at r < storeNowIso clk) (installation_tokens st)
              @ [\<lparr>token = t, expires_at = expiresAt, created_at = storeNowIso clk\<rparr>])
       \<and> (\<forall>r \<in> set (butlast (installation_tokens st')).
             r \<in> set (installation_tokens st) \<and> \<not> expires_at r < storeNowIso clk)
       \<and> (\<forall>r \<in> set (installation_tokens st).
             \<not> expires_at r < storeNowIso clk \<longrightarrow> r \<in> set (butlast (installation_tokens st')))
       \<and> length (installation_tokens st') =
           Suc (length (filter (\<lambda>r. \<not> expires_at r < storeNowIso clk) (installation_tokens st)))
       \<and> github_app_config st' = github_app_config st
       \<and> claude_config st' = claude_config st
       \<and> (\<exists>c. getCachedInstallationToken st' = Some c \<and> c \<in> set (installation_tokens st')
              \<and> (\<forall>r \<in> set (installation_tokens st'). created_at r \<le> created_at c))"
proof -
  from getInstallationToken_Some [OF assms] obtain expiresAt where
    st': "st' = storeInstallationTokenSQLite (storeNowIso clk) t expiresAt st" ..
  then have "installation_tokens st' \<noteq> []"
    by (simp add: storeInstallationTokenSQLite_def)
  then obtain c where c: "latestRow (installation_tokens st') = Some c"
    using latestRow_None [of "installation_tokens st'"] by (cases "latestRow (installation_tokens st')") auto
  from latestRow_greatest [OF c] c
  have "\<exists>c. getCachedInstallationToken st' = Some c \<and> c \<in> set (installation_tokens st')
              \<and> (\<forall>r \<in> set (installation_tokens st'). created_at r \<le> created_at c)"
    by (auto simp: getCachedInstallationToken_def)
  moreover from st' have "(\<exists>expiresAt.
            installation_tokens st' =
              filter (\<lambda>r. \<not> expires_at r < storeNowIso clk) (installation_tokens st)
              @ [\<lparr>token = t, expires_at = expiresAt, created_at = storeNowIso clk\<rparr>])
       \<and> (\<forall>r \<in> set (butlast (installation_tokens st')).
             r \<in> set (installation_tokens st) \<and> \<not> expires_at r < storeNowIso clk)
       \<and> (\<forall>r \<in> set (installation_tokens st).
             \<not> expires_at r < storeNowIso clk \<longrightarrow> r \<in> set (butlast (installation_tokens st')))
       \<and> length (installation_tokens st') =
           Suc (length (filter (\<lambda>r. \<not> expires_at r < storeNowIso clk) (installation_tokens st)))
       \<and> github_app_config st' = github_app_config st
       \<and> claude_config st' = claude_config st"
    by (auto simp: storeInstallationTokenSQLite_def)
  ultimately show ?thesis by blast
qed

theorem newly_exchanged_token_purges_expired_rows_witness:
  "getInstallationToken examplePlatform (exampleNet ''ghs_B'' ''2024-01-01T01:57:00Z'')
     clockSecond storageAfterFirst =
     (Some ''ghs_B'', storageAfterFirst\<lparr>installation_tokens := [tokenRowA, tokenRowB]\<rparr>,
      [accessTokenRequest ''777'' ''jwt-for-12345''])
   \<and> (\<exists>expiresAt.
        installation_tokens (storageAfterFirst\<lparr>installation_tokens := [tokenRowA, tokenRowB]\<rparr>) =
          filter (\<lambda>r. \<not> expires_at r < storeNowIso clockSecond)
            (installation_tokens storageAfterFirst)
          @ [\<lparr>token = ''ghs_B'', expires_at = expiresAt, created_at = storeNowIso clockSecond\<rparr>])"
proof -
  have ne: "[accessTokenRequest ''777'' ''jwt-for-12345''] \<noteq> []" by simp
  from newly_exchanged_token_purges_expired_rows [OF example_second_call ne] example_second_call
  show ?thesis by blast
qed

text \<open>
  The claim that at most one installation token is cached in a partition at any time
  fails after two calls on a fresh partition with a stored configuration: the second
  call, 181 seconds before the first token expires, refreshes; the first token has not
  expired, so it is not deleted, and the table holds two rows.
\<close>

theorem two_cached_tokens_counterexample:
  "exampleStorage = storeAppConfig ''2024-01-01T00:00:00.000Z'' exampleConfig initializeTables
   \<and> storageAfterFirst =
       fst (snd (getInstallationToken examplePlatform
                   (exampleNet ''ghs_A'' ''2024-01-01T01:00:01Z'') clockFirst exampleStorage))
   \<and> storageAfterSecond =
       fst (snd (getInstallationToken examplePlatform
                   (exampleNet ''ghs_B'' ''2024-01-01T01:57:00Z'') clockSecond storageAfterFirst))
   \<and> installation_tokens storageAfterSecond = [tokenRowA, tokenRowB]
   \<and> length (installation_tokens storageAfterSecond) = 2"
  by (simp add: storageAfterSecond_def example_second_call)
     (simp add: exampleStorage_def storageAfterFirst_def)

section \<open>Properties of the signature verification\<close>

lemma replaceFirst_prefix:
  assumes "startsWith s p"
  shows "replaceFirst p [] s = drop (length p) s"
  using assms by (cases s) (auto simp: startsWith_def)

lemma startsWith_append: "startsWith (p @ t) p"
  by (simp add: startsWith_def)

lemma startsWith_split: "startsWith s p \<Longrightarrow> s = p @ drop (length p) s"
  by (metis append_take_drop_id startsWith_def)

lemma hex_of_byte:
  "padStart 2 CHR ''0'' (toString16 b) = [hexDigit (unat b div 16), hexDigit (unat b mod 16)]"
  by (simp add: padStart_def toString16_def Let_def hexDigit_def)

lemma toHex_lowerHex: "toHex bs = lowerHex bs"
  by (simp add: toHex_def lowerHex_def hex_of_byte)

lemma hexDigit_inj:
  assumes "i < 16" and "j < 16" and "hexDigit i = hexDigit j"
  shows "i = j"
proof -
  have d: "distinct ''0123456789abcdef''" by simp
  have l: "length ''0123456789abcdef'' = 16" by simp
  from assms show ?thesis
    unfolding hexDigit_def using d l by (metis nth_eq_iff_index_eq)
qed

lemma byte_nibbles:
  fixes a b :: byte
  assumes "unat a div 16 = unat b div 16" and "unat a mod 16 = unat b mod 16"
  shows "a = b"
  using assms by (metis div_mult_mod_eq word_unat_eq_iff)

lemma byte_high_nibble: "unat (b :: byte) div 16 < 16"
proof -
  have "unat b < 2 ^ LENGTH(8)" by (rule unsigned_less)
  then show ?thesis by simp
qed

lemma lowerHex_inj: "lowerHex as = lowerHex bs \<Longrightarrow> as = bs"
proof (induction as arbitrary: bs)
  case Nil
  then show ?case by (cases bs) (simp_all add: lowerHex_def)
next
  case (Cons a as)
  then obtain b bs' where bs: "bs = b # bs'"
    by (cases bs) (simp_all add: lowerHex_def)
  from Cons.prems bs have hi: "hexDigit (unat a div 16) = hexDigit (unat b div 16)"
    and lo: "hexDigit (unat a mod 16) = hexDigit (unat b mod 16)"
    and rest: "lowerHex as = lowerHex bs'"
    by (simp_all add: lowerHex_def)
  from hi have "unat a div 16 = unat b div 16"
    by (rule hexDigit_inj [OF byte_high_nibble byte_high_nibble])
  moreover from lo have "unat a mod 16 = unat b mod 16"
    by (rule hexDigit_inj [rotated 2]) simp_all
  ultimately have "a = b" by (rule byte_nibbles)
  with Cons.IH [OF rest] bs show ?case by simp
qed

lemma replicate_unfold: "0 < n \<Longrightarrow> replicate n x = x # replicate (n - 1) x"
  by (cases n) simp_all

lemma verifyGitHubSignature_rejects:
  assumes "signature = None \<or> (\<exists>sig. signature = Some sig \<and> \<not> startsWith sig ''sha256='')"
  shows "verifyGitHubSignature P payload signature secret = Inr False"
  using assms by (auto simp: verifyGitHubSignature_def)

lemma verifyGitHubSignature_empty_key:
  assumes "textEncode P secret = []" and "startsWith sig ''sha256=''"
  shows "verifyGitHubSignature P payload (Some sig) secret = Inl dataError"
proof -
  from assms(2) have "sig \<noteq> []" by (auto simp: startsWith_def)
  with assms show ?thesis
    by (simp add: verifyGitHubSignature_def importHmacKey_def andThen_def Let_def)
qed

lemma verifyGitHubSignature_iff:
  assumes "textEncode P secret \<noteq> []"
  shows "verifyGitHubSignature P payload signature secret =
           Inr (signature = Some (signatureHeaderFor P payload secret))"
proof (cases signature)
  case None
  then show ?thesis by (simp add: verifyGitHubSignature_def)
next
  case (Some sig)
  show ?thesis
  proof (cases "startsWith sig ''sha256=''")
    case False
    then have "sig \<noteq> signatureHeaderFor P payload secret"
      using startsWith_append [of "''sha256=''"] by (auto simp: signatureHeaderFor_def)
    with False Some show ?thesis by (simp add: verifyGitHubSignature_def)
  next
    case True
    then have ne: "sig \<noteq> []" by (auto simp: startsWith_def)
    note split = startsWith_split [OF True]
    have "verifyGitHubSignature P payload (Some sig) secret =
        Inr (replaceFirst ''sha256='' [] sig
          = toHex (hmacSha256 P (textEncode P secret) (textEncode P payload)))"
      using True ne assms
      by (simp add: verifyGitHubSignature_def importHmacKey_def andThen_def Let_def)
    also have "replaceFirst ''sha256='' [] sig
          = toHex (hmacSha256 P (textEncode P secret) (textEncode P payload))
        \<longleftrightarrow> drop (length ''sha256='') sig
          = lowerHex (hmacSha256 P (textEncode P secret) (textEncode P payload))"
      by (simp only: replaceFirst_prefix [OF True] toHex_lowerHex)
    also have "\<dots> \<longleftrightarrow> sig = signatureHeaderFor P payload secret"
      unfolding signatureHeaderFor_def using split by (metis same_append_eq)
    finally show ?thesis using Some by simp
  qed
qed

text \<open>
  Claim C1, as the code has it. For a secret whose encoding is not empty, the
  verification returns, and returns true exactly when the header is \<^verbatim>\<open>sha256=\<close>
  followed by the lower-case hexadecimal HMAC-SHA256 of the encoded payload under the
  encoded secret. For every secret it returns false for an absent header and for a
  header that does not start with \<^verbatim>\<open>sha256=\<close>. For a secret whose encoding is empty
  and a header that starts with \<^verbatim>\<open>sha256=\<close> it throws the key import's
  \<^verbatim>\<open>DataError\<close>. A header made for one payload and secret is accepted for another
  payload or secret (both secrets with a non-empty encoding) exactly when the two
  HMAC values are equal; so it is rejected whenever the change of payload or secret
  changes the HMAC.
\<close>

theorem verifyGitHubSignature_accepts_exactly_the_hmac_header:
  "(textEncode P secret \<noteq> [] \<longrightarrow>
      verifyGitHubSignature P payload signature secret =
        Inr (signature = Some (signatureHeaderFor P payload secret)))
   \<and> verifyGitHubSignature P payload None secret = Inr False
   \<and> (\<not> startsWith sig ''sha256='' \<longrightarrow>
        verifyGitHubSignature P payload (Some sig) secret = Inr False)
   \<and> (textEncode P secret = [] \<and> startsWith sig ''sha256='' \<longrightarrow>
        verifyGitHubSignature P payload (Some sig) secret = Inl dataError)
   \<and> (textEncode P secret \<noteq> [] \<and> textEncode P secret' \<noteq> [] \<longrightarrow>
        verifyGitHubSignature P payload' (Some (signatureHeaderFor P payload secret)) secret' =
          Inr (hmacSha256 P (textEncode P secret') (textEncode P payload')
                 = hmacSha256 P (textEncode P secret) (textEncode P payload)))"
proof (intro conjI impI)
  show "verifyGitHubSignature P payload signature secret =
        Inr (signature = Some (signatureHeaderFor P payload secret))"
    if "textEncode P secret \<noteq> []"
    using that by (rule verifyGitHubSignature_iff)
  show "verifyGitHubSignature P payload None secret = Inr False"
    by (simp add: verifyGitHubSignature_rejects)
  show "verifyGitHubSignature P payload (Some sig) secret = Inr False"
    if "\<not> startsWith sig ''sha256=''"
    using that by (simp add: verifyGitHubSignature_rejects)
  show "verifyGitHubSignature P payload (Some sig) secret = Inl dataError"
    if "textEncode P secret = [] \<and> startsWith sig ''sha256=''"
    using that by (simp add: verifyGitHubSignature_empty_key)
  show "verifyGitHubSignature P payload' (Some (signatureHeaderFor P payload secret)) secret' =
          Inr (hmacSha256 P (textEncode P secret') (textEncode P payload')
                 = hmacSha256 P (textEncode P secret) (textEncode P payload))"
    if "textEncode P secret \<noteq> [] \<and> textEncode P secret' \<noteq> []"
    using that
    by (auto simp: verifyGitHubSignature_iff signatureHeaderFor_def dest: lowerHex_inj)
qed

theorem verifyGitHubSignature_accepts_exactly_the_hmac_header_witness:
  "verifyGitHubSignature examplePlatform ''{}''
     (Some (signatureHeaderFor examplePlatform ''{}'' ''s3cr3t'')) ''s3cr3t'' = Inr True
   \<and> verifyGitHubSignature examplePlatform ''{}'' None ''s3cr3t'' = Inr False
   \<and> verifyGitHubSignature examplePlatform ''{}'' (Some ''sha1=00'') ''s3cr3t'' = Inr False
   \<and> verifyGitHubSignature examplePlatform ''{}'' (Some ''sha256=00'') [] = Inl dataError
   \<and> verifyGitHubSignature examplePlatform ''[]''
         (Some (signatureHeaderFor examplePlatform ''{}'' ''s3cr3t'')) ''s3cr3t'' = Inr False
   \<and> verifyGitHubSignature examplePlatform ''{}''
         (Some (signatureHeaderFor examplePlatform ''{}'' ''s3cr3t'')) ''wrong'' = Inr False"
proof -
  note inst = verifyGitHubSignature_accepts_exactly_the_hmac_header
      [where P = examplePlatform and payload = "''{}''"]
  have bad_prefix: "\<not> startsWith ''sha1=00'' ''sha256=''"
    by (simp add: startsWith_def)
  have good_prefix: "startsWith ''sha256=00'' ''sha256=''"
    by (simp add: startsWith_def)
  have key: "textEncode examplePlatform ''s3cr3t'' \<noteq> []"
    "textEncode examplePlatform ''wrong'' \<noteq> []" "textEncode examplePlatform [] = []"
    by (simp_all add: examplePlatform_def exampleEncode_def)
  have other_payload: "hmacSha256 examplePlatform (textEncode examplePlatform ''s3cr3t'')
        (textEncode examplePlatform ''[]'')
      \<noteq> hmacSha256 examplePlatform (textEncode examplePlatform ''s3cr3t'')
        (textEncode examplePlatform ''{}'')"
    by (simp add: examplePlatform_def exampleEncode_def)
  have other_secret: "hmacSha256 examplePlatform (textEncode examplePlatform ''wrong'')
        (textEncode examplePlatform ''{}'')
      \<noteq> hmacSha256 examplePlatform (textEncode examplePlatform ''s3cr3t'')
        (textEncode examplePlatform ''{}'')"
    by (simp add: examplePlatform_def exampleEncode_def)
  from inst [where secret = "''s3cr3t''" and sig = "''sha1=00''"
      and signature = "Some (signatureHeaderFor examplePlatform ''{}'' ''s3cr3t'')"
      and payload' = "''[]''" and secret' = "''s3cr3t''"]
    key bad_prefix other_payload
  have a: "verifyGitHubSignature examplePlatform ''{}''
       (Some (signatureHeaderFor examplePlatform ''{}'' ''s3cr3t'')) ''s3cr3t'' = Inr True"
    and b: "verifyGitHubSignature examplePlatform ''{}'' None ''s3cr3t'' = Inr False"
    and c: "verifyGitHubSignature examplePlatform ''{}'' (Some ''sha1=00'') ''s3cr3t'' = Inr False"
    and e: "verifyGitHubSignature examplePlatform ''[]''
         (Some (signatureHeaderFor examplePlatform ''{}'' ''s3cr3t'')) ''s3cr3t'' = Inr False"
    by simp_all
  from inst [where secret = "[]" and sig = "''sha256=00''" and signature = None
      and payload' = "''{}''" and secret' = "[]"] key good_prefix
  have d: "verifyGitHubSignature examplePlatform ''{}'' (Some ''sha256=00'') [] = Inl dataError"
    by simp
  from inst [where secret = "''s3cr3t''" and sig = "''sha1=00''" and signature = None
      and payload' = "''{}''" and secret' = "''wrong''"] key other_secret
  have f: "verifyGitHubSignature examplePlatform ''{}''
         (Some (signatureHeaderFor examplePlatform ''{}'' ''s3cr3t'')) ''wrong'' = Inr False"
    by simp
  from a b c d e f show ?thesis by simp
qed

text \<open>
  The claim fails in two ways. That verification fails whenever a different secret
  is used is false on any platform whose HMAC is the standard construction, for every
  hash function: the secret \<^verbatim>\<open>s3cr3t\<close> followed by a NUL character is another string,
  its encoding is one zero byte longer, and the zero padding of the key makes both
  keys the same block, so a header made with \<^verbatim>\<open>s3cr3t\<close> is accepted under the longer
  secret. And for the empty secret the verification does not return true for the
  header made with it: the key import throws.
\<close>

theorem different_secret_accepted_counterexample:
  "(\<forall>H. ''s3cr3t'' @ [CHR 0x00] \<noteq> ''s3cr3t''
     \<and> textEncode (examplePlatform\<lparr>hmacSha256 := hmacOver H\<rparr>) (''s3cr3t'' @ [CHR 0x00])
         = textEncode (examplePlatform\<lparr>hmacSha256 := hmacOver H\<rparr>) ''s3cr3t'' @ [0]
     \<and> verifyGitHubSignature (examplePlatform\<lparr>hmacSha256 := hmacOver H\<rparr>) ''{}''
         (Some (signatureHeaderFor (examplePlatform\<lparr>hmacSha256 := hmacOver H\<rparr>) ''{}'' ''s3cr3t''))
         (''s3cr3t'' @ [CHR 0x00]) = Inr True)
   \<and> verifyGitHubSignature examplePlatform ''{}''
        (Some (signatureHeaderFor examplePlatform ''{}'' [])) [] = Inl dataError"
proof (intro allI conjI)
  fix H :: "bytes \<Rightarrow> bytes"
  show "''s3cr3t'' @ [CHR 0x00] \<noteq> ''s3cr3t''" by simp
  show "textEncode (examplePlatform\<lparr>hmacSha256 := hmacOver H\<rparr>) (''s3cr3t'' @ [CHR 0x00])
         = textEncode (examplePlatform\<lparr>hmacSha256 := hmacOver H\<rparr>) ''s3cr3t'' @ [0]"
    by (simp add: examplePlatform_def exampleEncode_def)
  have "hmacOver H (exampleEncode (''s3cr3t'' @ [CHR 0x00])) m = hmacOver H (exampleEncode ''s3cr3t'') m"
    for m
    by (simp add: hmacOver_def exampleEncode_def Let_def replicate_unfold)
  moreover have "textEncode (examplePlatform\<lparr>hmacSha256 := hmacOver H\<rparr>) (''s3cr3t'' @ [CHR 0x00])
      \<noteq> []"
    by (simp add: examplePlatform_def exampleEncode_def)
  ultimately show "verifyGitHubSignature (examplePlatform\<lparr>hmacSha256 := hmacOver H\<rparr>) ''{}''
         (Some (signatureHeaderFor (examplePlatform\<lparr>hmacSha256 := hmacOver H\<rparr>) ''{}'' ''s3cr3t''))
         (''s3cr3t'' @ [CHR 0x00]) = Inr True"
    by (simp add: verifyGitHubSignature_iff)
       (simp add: signatureHeaderFor_def examplePlatform_def)
next
  have "textEncode examplePlatform [] = []"
    by (simp add: examplePlatform_def exampleEncode_def)
  then show "verifyGitHubSignature examplePlatform ''{}''
        (Some (signatureHeaderFor examplePlatform ''{}'' [])) [] = Inl dataError"
    by (rule verifyGitHubSignature_empty_key) (simp add: signatureHeaderFor_def startsWith_def)
qed

section \<open>Properties of the webhook handler\<close>

lemma handleGitHubWebhook_missing:
  assumes "orNull (get_header request ''x-hub-signature-256'') = None
         \<or> orNull (get_header request ''x-github-event'') = None
         \<or> orNull (get_header request ''x-github-delivery'') = None"
  shows "handleGitHubWebhook P H stamp now tenants request =
           (textResponse 400 ''Missing required headers'', tenants, [])"
  using assms
  by (auto simp: handleGitHubWebhook_def Let_def split: option.splits)

lemma handleGitHubWebhook_unparsed:
  assumes "orNull (get_header request ''x-hub-signature-256'') = Some sig"
    and "orNull (get_header request ''x-github-event'') = Some ev"
    and "orNull (get_header request ''x-github-delivery'') = Some del"
    and "jsonParse P (body_text request) = None \<or> jsonParse P (body_text request) = Some JNull"
  shows "handleGitHubWebhook P H stamp now tenants request =
           (textResponse 400 ''Invalid JSON payload'', tenants, [])"
  using assms
  by (auto simp: handleGitHubWebhook_def Let_def)

lemma handleGitHubWebhook_ping:
  assumes "orNull (get_header request ''x-hub-signature-256'') = Some sig"
    and "orNull (get_header request ''x-github-event'') = Some ''ping''"
    and "orNull (get_header request ''x-github-delivery'') = Some del"
    and "jsonParse P (body_text request) = Some webhookData" and "webhookData \<noteq> JNull"
  shows "handleGitHubWebhook P H stamp now tenants request =
           (pingResponse webhookData, tenants, [])"
  using assms
  by (cases webhookData) (simp_all add: handleGitHubWebhook_def Let_def)

text \<open>
  Claim C7, as the code has it. A webhook whose event type is \<^verbatim>\<open>ping\<close>, that carries
  a non-empty signature header and a non-empty delivery header, and whose body parses
  as JSON to a value other than \<^verbatim>\<open>null\<close>, is answered 200 with the ping
  acknowledgement; no tenant is resolved, no credential is loaded, the signature is
  not verified (whatever its value) and no storage changes.
\<close>

theorem ping_acknowledged_without_tenant_or_signature_check:
  assumes "orNull (get_header request ''x-hub-signature-256'') = Some sig"
    and "get_header request ''x-github-event'' = Some ''ping''"
    and "orNull (get_header request ''x-github-delivery'') = Some del"
    and "jsonParse P (body_text request) = Some webhookData" and "webhookData \<noteq> JNull"
  shows "handleGitHubWebhook P H stamp now tenants request =
           (pingResponse webhookData, tenants, [])
       \<and> status (fst (handleGitHubWebhook P H stamp now tenants request)) = 200"
proof -
  from assms(2) have "orNull (get_header request ''x-github-event'') = Some ''ping''"
    by (simp add: orNull_def)
  from handleGitHubWebhook_ping [OF assms(1) this assms(3,4,5)]
  show ?thesis by (simp add: pingResponse_def)
qed

lemma pingComplete_headers:
  "orNull (get_header pingComplete ''x-hub-signature-256'') = Some ''sha256=00''"
  "get_header pingComplete ''x-github-event'' = Some ''ping''"
  "orNull (get_header pingComplete ''x-github-delivery'') = Some ''d-3''"
  "jsonParse examplePlatform (body_text pingComplete) = Some (JObj [])"
  by (simp_all add: pingComplete_def exampleRequest_def orNull_def examplePlatform_def
      exampleJsonParse_def)

theorem ping_acknowledged_without_tenant_or_signature_check_witness:
  "handleGitHubWebhook examplePlatform exampleHandlers ''t1'' ''t2'' noTenants pingComplete =
     (pingResponse (JObj []), noTenants, [])
   \<and> status (fst (handleGitHubWebhook examplePlatform exampleHandlers ''t1'' ''t2'' noTenants
        pingComplete)) = 200"
proof -
  have "JObj [] \<noteq> JNull" by simp
  from ping_acknowledged_without_tenant_or_signature_check [OF pingComplete_headers this]
  show ?thesis .
qed

text \<open>
  The claim read for every webhook of type \<^verbatim>\<open>ping\<close> fails: a ping without the
  signature header is answered 400, and so is a ping whose body is not JSON.
\<close>

theorem ping_answered_400_counterexample:
  "get_header pingWithoutSignature ''x-github-event'' = Some ''ping''
   \<and> get_header pingWithoutSignature ''x-hub-signature-256'' = None
   \<and> status (fst (handleGitHubWebhook examplePlatform exampleHandlers ''t1'' ''t2'' noTenants
        pingWithoutSignature)) = 400
   \<and> get_header pingNotJson ''x-github-event'' = Some ''ping''
   \<and> jsonParse examplePlatform (body_text pingNotJson) = None
   \<and> status (fst (handleGitHubWebhook examplePlatform exampleHandlers ''t1'' ''t2'' noTenants
        pingNotJson)) = 400"
proof -
  have a: "orNull (get_header pingWithoutSignature ''x-hub-signature-256'') = None"
    by (simp add: pingWithoutSignature_def exampleRequest_def orNull_def)
  have b: "orNull (get_header pingNotJson ''x-hub-signature-256'') = Some ''sha256=00''"
    "orNull (get_header pingNotJson ''x-github-event'') = Some ''ping''"
    "orNull (get_header pingNotJson ''x-github-delivery'') = Some ''d-2''"
    by (simp_all add: pingNotJson_def exampleRequest_def orNull_def)
  have c: "jsonParse examplePlatform (body_text pingNotJson) = None"
    by (simp add: pingNotJson_def exampleRequest_def examplePlatform_def exampleJsonParse_def)
  have "handleGitHubWebhook examplePlatform exampleHandlers ''t1'' ''t2'' noTenants
          pingWithoutSignature = (textResponse 400 ''Missing required headers'', noTenants, [])"
    using a by (simp add: handleGitHubWebhook_missing)
  moreover have "handleGitHubWebhook examplePlatform exampleHandlers ''t1'' ''t2'' noTenants
          pingNotJson = (textResponse 400 ''Invalid JSON payload'', noTenants, [])"
    using b c by (simp add: handleGitHubWebhook_unparsed)
  ultimately show ?thesis
    using c
    by (simp add: textResponse_def)
       (simp add: pingWithoutSignature_def pingNotJson_def exampleRequest_def)
qed

text \<open>
  Claim C10. A webhook request in which the signature header, the event-type header
  or the delivery header is absent (or empty) is answered 400 with no step taken: no
  tenant resolution, no credential load, no signature verification, no routing, and
  no change to any storage. This holds for every event type, \<^verbatim>\<open>ping\<close> included.
\<close>

theorem missing_header_answered_400_before_anything_else:
  assumes "orNull (get_header request ''x-hub-signature-256'') = None
         \<or> orNull (get_header request ''x-github-event'') = None
         \<or> orNull (get_header request ''x-github-delivery'') = None"
  shows "handleGitHubWebhook P H stamp now tenants request =
           (textResponse 400 ''Missing required headers'', tenants, [])
       \<and> status (fst (handleGitHubWebhook P H stamp now tenants request)) = 400"
  using handleGitHubWebhook_missing [OF assms]
  by (simp add: textResponse_def)

theorem missing_header_answered_400_before_anything_else_witness:
  "get_header pingWithoutDelivery ''x-github-event'' = Some ''ping''
   \<and> get_header pingWithoutDelivery ''x-github-delivery'' = None
   \<and> handleGitHubWebhook examplePlatform exampleHandlers ''t1'' ''t2'' noTenants
        pingWithoutDelivery = (textResponse 400 ''Missing required headers'', noTenants, [])
   \<and> status (fst (handleGitHubWebhook examplePlatform exampleHandlers ''t1'' ''t2'' noTenants
        pingWithoutDelivery)) = 400"
proof -
  have a: "orNull (get_header pingWithoutDelivery ''x-github-delivery'') = None"
    by (simp add: pingWithoutDelivery_def exampleRequest_def orNull_def)
  then have "orNull (get_header pingWithoutDelivery ''x-hub-signature-256'') = None
         \<or> orNull (get_header pingWithoutDelivery ''x-github-event'') = None
         \<or> orNull (get_header pingWithoutDelivery ''x-github-delivery'') = None"
    by simp
  from missing_header_answered_400_before_anything_else
      [OF this, of examplePlatform exampleHandlers "''t1''" "''t2''" noTenants]
  have "handleGitHubWebhook examplePlatform exampleHandlers ''t1'' ''t2'' noTenants
        pingWithoutDelivery = (textResponse 400 ''Missing required headers'', noTenants, [])
   \<and> status (fst (handleGitHubWebhook examplePlatform exampleHandlers ''t1'' ''t2'' noTenants
        pingWithoutDelivery)) = 400" .
  moreover have "get_header pingWithoutDelivery ''x-github-event'' = Some ''ping''
   \<and> get_header pingWithoutDelivery ''x-github-delivery'' = None"
    by (simp add: pingWithoutDelivery_def exampleRequest_def)
  ultimately show ?thesis by blast
qed

section \<open>Properties of the dispatch to the container\<close>

lemma containerFetch_cases:
  "containerFetch downstream options =
     Inr (case promiseRace downstream (timeoutOf options) of
            Inr response \<Rightarrow> response
          | Inl error \<Rightarrow> failureResponse error (nameOf options) (routeOf options))"
  by (simp add: containerFetch_def tryCatch_def andThen_def split: sum.splits)

text \<open>
  Claim C5, as the code has it. \<^verbatim>\<open>containerFetch\<close> never throws. With the
  configured timeout, 300000 ms when none is given: when the downstream call settles
  after more than the timeout or never, the result is the failure response for the
  timeout error; when it rejects before the timeout, the result is the failure
  response for that error. The failure response has status 500 and a JSON body with
  exactly the fields \<^verbatim>\<open>error\<close>, \<^verbatim>\<open>message\<close>, \<^verbatim>\<open>containerName\<close> and \<^verbatim>\<open>route\<close>. When
  the downstream call resolves before the timeout, its response is returned as it
  is, whatever its status.
\<close>

theorem containerFetch_never_throws_and_normalises_failures:
  "(\<exists>response. containerFetch downstream options = Inr response)
   \<and> (downstream = NeverSettles
        \<or> (\<exists>t r. downstream = Resolves t r \<and> timeoutOf options < t)
        \<or> (\<exists>t e. downstream = Rejects t e \<and> timeoutOf options < t)
      \<longrightarrow> containerFetch downstream options =
            Inr (failureResponse (timeoutError (timeoutOf options))
                   (nameOf options) (routeOf options)))
   \<and> (\<forall>t e. downstream = Rejects t e \<and> t < timeoutOf options
      \<longrightarrow> containerFetch downstream options =
            Inr (failureResponse e (nameOf options) (routeOf options)))
   \<and> (\<forall>t r. downstream = Resolves t r \<and> t < timeoutOf options
      \<longrightarrow> containerFetch downstream options = Inr r)
   \<and> (\<forall>error. status (failureResponse error (nameOf options) (routeOf options)) = 500
        \<and> body (failureResponse error (nameOf options) (routeOf options)) =
            JsonBody (JObj [(''error'', JStr ''Container fetch failed''),
                            (''message'', JStr (errorMessage error)),
                            (''containerName'', JStr (nameOf options)),
                            (''route'', JStr (routeOf options))]))
   \<and> timeoutOf (options\<lparr>timeout := None\<rparr>) = 300000"
  by (auto simp: containerFetch_cases promiseRace_def failureResponse_def timeoutOf_def)

theorem containerFetch_never_throws_and_normalises_failures_witness:
  "containerFetch NeverSettles exampleOptions =
     Inr (failureResponse (ErrorObj ''Container fetch timeout after 300000ms'')
            ''claude-issue-1'' ''/process-issue'')
   \<and> containerFetch (Resolves 300001 notFoundResponse) exampleOptions =
     Inr (failureResponse (ErrorObj ''Container fetch timeout after 300000ms'')
            ''claude-issue-1'' ''/process-issue'')
   \<and> containerFetch (Rejects 5 (ErrorObj ''Network connection lost'')) exampleOptions =
     Inr (failureResponse (ErrorObj ''Network connection lost'')
            ''claude-issue-1'' ''/process-issue'')
   \<and> containerFetch (Resolves 10 notFoundResponse) exampleOptions = Inr notFoundResponse"
proof -
  have t: "timeoutError 300000 = ErrorObj ''Container fetch timeout after 300000ms''"
    by (simp add: timeoutError_def showNat.simps digitChar_def)
  note inst = containerFetch_never_throws_and_normalises_failures [where options = exampleOptions]
  from inst [of NeverSettles]
    inst [of "Resolves 300001 notFoundResponse"]
    inst [of "Rejects 5 (ErrorObj ''Network connection lost'')"]
    inst [of "Resolves 10 notFoundResponse"]
  show ?thesis
    by (simp add: exampleOptions_def t timeoutOf_def nameOf_def routeOf_def)
qed

text \<open>
  The claim that a downstream error response is replaced by the structured failure
  fails: a container that answers 404 within the timeout has its response returned
  unchanged, with status 404 and its own body. And the failure body of a timeout has
  no field \<^verbatim>\<open>name\<close>; the container's name is under \<^verbatim>\<open>containerName\<close>.
\<close>

theorem downstream_error_response_passed_through_counterexample:
  "\<not> ok (status notFoundResponse)
   \<and> containerFetch (Resolves 10 notFoundResponse) exampleOptions = Inr notFoundResponse
   \<and> status notFoundResponse = 404
   \<and> body notFoundResponse = TextBody ''Not Found''
   \<and> (\<exists>entries. containerFetch NeverSettles exampleOptions =
          Inr \<lparr>status = 500, body = JsonBody (JObj entries),
               resp_headers = [(''Content-Type'', ''application/json'')]\<rparr>
        \<and> map fst entries = [''error'', ''message'', ''containerName'', ''route'']
        \<and> map_of entries ''name'' = None)"
  by (simp add: containerFetch_cases promiseRace_def exampleOptions_def notFoundResponse_def
      ok_def failureResponse_def timeoutOf_def nameOf_def routeOf_def)

end
